theory Spec2Isabelle
  imports Complex_Main "HOL-Library.Char_ord" "HOL-Library.List_Lexorder"
    "HOL-Library.Product_Lexorder" "HOL-Library.Multiset"
begin

section \<open>Clock values and their two textual renderings\<close>

text \<open>
  The program reads the clock in two places. The server calls \<^verbatim>\<open>Date.now()\<close>
  (milliseconds since 1970-01-01T00:00:00Z) and renders the expiry with
  \<^verbatim>\<open>toISOString()\<close>, which gives \<^verbatim>\<open>YYYY-MM-DDTHH:MM:SS.mmmZ\<close>. The SQL statements
  use \<^verbatim>\<open>CURRENT_TIMESTAMP\<close>, which SQLite renders as \<^verbatim>\<open>YYYY-MM-DD HH:MM:SS\<close> (UTC).
  A clock value is a \<open>nat\<close> of milliseconds; both renderings are computed from it.
  The four-digit year covers the years 1970 to 9999.
\<close>

definition digit :: "nat \<Rightarrow> char" where
  "digit n = ''0123456789'' ! (n mod 10)"

definition pad2 :: "nat \<Rightarrow> string" where
  "pad2 n = [digit (n div 10), digit n]"

definition pad3 :: "nat \<Rightarrow> string" where
  "pad3 n = [digit (n div 100), digit (n div 10), digit n]"

definition pad4 :: "nat \<Rightarrow> string" where
  "pad4 n = [digit (n div 1000), digit (n div 100), digit (n div 10), digit n]"

text \<open>
  Days since 1970-01-01 to the proleptic Gregorian (year, month, day), by the usual
  era arithmetic: \<open>doe\<close> is the day of the 400-year era, \<open>yoe\<close> the year of the era,
  \<open>doy\<close> the day of the year counted from 1 March, \<open>mp\<close> the month counted from March.
\<close>

definition yoe_of :: "nat \<Rightarrow> nat" where
  "yoe_of doe = (doe + doe div 36524 - doe div 1460 - doe div 146096) div 365"

definition doy_of :: "nat \<Rightarrow> nat \<Rightarrow> nat" where
  "doy_of doe yoe = doe + yoe div 100 - 365 * yoe - yoe div 4"

definition mp_of :: "nat \<Rightarrow> nat" where
  "mp_of doy = (5 * doy + 2) div 153"

definition month_of :: "nat \<Rightarrow> nat" where
  "month_of mp = (if mp < 10 then mp + 3 else mp - 9)"

definition day_of :: "nat \<Rightarrow> nat \<Rightarrow> nat" where
  "day_of doy mp = doy + 1 - (153 * mp + 2) div 5"

definition year_of :: "nat \<Rightarrow> nat \<Rightarrow> nat \<Rightarrow> nat" where
  "year_of era yoe m = yoe + era * 400 + (if m \<le> 2 then 1 else 0)"

definition civil_doe :: "nat \<Rightarrow> nat \<Rightarrow> nat \<times> nat \<times> nat" where
  "civil_doe era doe =
     (year_of era (yoe_of doe) (month_of (mp_of (doy_of doe (yoe_of doe)))),
      month_of (mp_of (doy_of doe (yoe_of doe))),
      day_of (doy_of doe (yoe_of doe)) (mp_of (doy_of doe (yoe_of doe))))"

definition civil_from_days :: "nat \<Rightarrow> nat \<times> nat \<times> nat" where
  "civil_from_days days =
     civil_doe ((days + 719468) div 146097) ((days + 719468) mod 146097)"

definition date_text :: "nat \<Rightarrow> string" where
  "date_text ms =
     (case civil_from_days (ms div 86400000) of
        (y, m, d) \<Rightarrow> pad4 y @ ''-'' @ pad2 m @ ''-'' @ pad2 d)"

definition clock_text :: "nat \<Rightarrow> string" where
  "clock_text ms =
     pad2 (ms div 3600000 mod 24) @ '':'' @ pad2 (ms div 60000 mod 60) @ '':''
       @ pad2 (ms div 1000 mod 60)"

definition toISOString :: "nat \<Rightarrow> string" where
  "toISOString ms = date_text ms @ ''T'' @ clock_text ms @ ''.'' @ pad3 (ms mod 1000) @ ''Z''"

definition CURRENT_TIMESTAMP :: "nat \<Rightarrow> string" where
  "CURRENT_TIMESTAMP ms = date_text ms @ '' '' @ clock_text ms"

text \<open>
  SQLite compares two TEXT values byte by byte, a proper prefix being smaller. That is
  the order \<open>(<)\<close> on \<open>string\<close> from the lexicographic list order over the order of
  characters by code.
\<close>


section \<open>The three tables\<close>

text \<open>
  A table is the list of its rows in insertion order. Columns declared \<^verbatim>\<open>TEXT\<close>
  hold the text the statements bind. The \<^verbatim>\<open>DATETIME\<close> columns hold text too: the
  program writes only the two renderings of the clock there, which do not read as
  numbers. The date and the time of an event come from the request and are kept as the
  stored values described next. A nullable column is an \<open>option\<close>, and
  \<^verbatim>\<open>is_active\<close> is the integer the schema defaults to 1.
  Each table declared \<^verbatim>\<open>AUTOINCREMENT\<close> has its counter of the largest row id
  ever handed out. Foreign keys are declared but never switched on, so no statement
  checks them.
\<close>

text \<open>
  The columns \<^verbatim>\<open>events.date\<close> and \<^verbatim>\<open>events.time\<close> are declared \<^verbatim>\<open>DATE\<close> and
  \<^verbatim>\<open>TIME\<close>, which gives them numeric affinity: a text that reads as a number is
  stored as that number, any other text as it is. A text reads as a number when,
  between optional white space, it is an optional sign, digits with an optional point
  (at least one digit before or after it), and an optional exponent \<^verbatim>\<open>e\<close> or \<^verbatim>\<open>E\<close>
  with an optional sign and at least one digit. The number is kept here at its exact
  value; SQLite keeps it as a 64-bit integer or a double, so this covers the numbers
  that fit those without rounding.
\<close>

datatype sql_value = SqlNumber rat | SqlText string

definition is_space :: "char \<Rightarrow> bool" where
  "is_space c = (c \<in> set [CHR 0x09, CHR 0x0A, CHR 0x0B, CHR 0x0C, CHR 0x0D, CHR 0x20])"

definition is_digit :: "char \<Rightarrow> bool" where
  "is_digit c = (c \<in> set ''0123456789'')"

definition digit_value :: "char \<Rightarrow> nat" where
  "digit_value c = length (takeWhile (\<lambda>d. d \<noteq> c) ''0123456789'')"

definition digits_value :: "string \<Rightarrow> nat" where
  "digits_value ds = foldl (\<lambda>a c. 10 * a + digit_value c) 0 ds"

definition trim :: "string \<Rightarrow> string" where
  "trim s = rev (dropWhile is_space (rev (dropWhile is_space s)))"

definition is_negative :: "string \<Rightarrow> bool" where
  "is_negative s = (case s of [] \<Rightarrow> False | c # r \<Rightarrow> c = CHR ''-'')"

definition unsigned :: "string \<Rightarrow> string" where
  "unsigned s =
     (case s of [] \<Rightarrow> [] | c # r \<Rightarrow> if c = CHR ''-'' \<or> c = CHR ''+'' then r else s)"

definition int_digits :: "string \<Rightarrow> string" where
  "int_digits s = takeWhile is_digit s"

definition frac_digits :: "string \<Rightarrow> string" where
  "frac_digits s =
     (case dropWhile is_digit s of
        [] \<Rightarrow> []
      | c # r \<Rightarrow> if c = CHR ''.'' then takeWhile is_digit r else [])"

definition after_mantissa :: "string \<Rightarrow> string" where
  "after_mantissa s =
     (case dropWhile is_digit s of
        [] \<Rightarrow> []
      | c # r \<Rightarrow> if c = CHR ''.'' then dropWhile is_digit r else c # r)"

text \<open>The exponent written after the mantissa: 0 when nothing follows, none when what
  follows is not an exponent.\<close>

definition exponent :: "string \<Rightarrow> int option" where
  "exponent s =
     (case s of
        [] \<Rightarrow> Some 0
      | c # r \<Rightarrow>
          if (c = CHR ''e'' \<or> c = CHR ''E'') \<and> unsigned r \<noteq> []
               \<and> list_all is_digit (unsigned r)
          then Some (if is_negative r then - int (digits_value (unsigned r))
                     else int (digits_value (unsigned r)))
          else None)"

definition scale :: "rat \<Rightarrow> int \<Rightarrow> rat" where
  "scale m k = (if 0 \<le> k then m * 10 ^ nat k else m / 10 ^ nat (- k))"

definition unsigned_value :: "string \<Rightarrow> rat option" where
  "unsigned_value u =
     (if int_digits u = [] \<and> frac_digits u = [] then None
      else (case exponent (after_mantissa u) of
              None \<Rightarrow> None
            | Some e \<Rightarrow>
                Some (scale (of_nat (digits_value (int_digits u @ frac_digits u)))
                        (e - int (length (frac_digits u))))))"

definition literal_value :: "string \<Rightarrow> rat option" where
  "literal_value s =
     (case unsigned_value (unsigned (trim s)) of
        None \<Rightarrow> None
      | Some q \<Rightarrow> Some (if is_negative (trim s) then - q else q))"

definition numeric_affinity :: "string \<Rightarrow> sql_value" where
  "numeric_affinity s =
     (case literal_value s of None \<Rightarrow> SqlText s | Some q \<Rightarrow> SqlNumber q)"

text \<open>
  The order of \<^verbatim>\<open>ORDER BY\<close> on stored values: numbers by value, every number before
  every text, text byte by byte.
\<close>

fun sql_le :: "sql_value \<Rightarrow> sql_value \<Rightarrow> bool" where
  "sql_le (SqlNumber a) (SqlNumber b) = (a \<le> b)"
| "sql_le (SqlNumber a) (SqlText t) = True"
| "sql_le (SqlText s) (SqlNumber b) = False"
| "sql_le (SqlText s) (SqlText t) = (s \<le> t)"

instantiation sql_value :: linorder
begin

definition less_eq_sql_value :: "sql_value \<Rightarrow> sql_value \<Rightarrow> bool" where
  "less_eq_sql_value a b = sql_le a b"

definition less_sql_value :: "sql_value \<Rightarrow> sql_value \<Rightarrow> bool" where
  "less_sql_value a b = (sql_le a b \<and> \<not> sql_le b a)"

instance
proof
  fix x y z :: sql_value
  show "(x < y) = (x \<le> y \<and> \<not> y \<le> x)"
    by (simp add: less_sql_value_def less_eq_sql_value_def)
  show "x \<le> x"
    by (cases x) (simp_all add: less_eq_sql_value_def)
  show "x \<le> y \<Longrightarrow> y \<le> z \<Longrightarrow> x \<le> z"
    by (cases x; cases y; cases z) (auto simp add: less_eq_sql_value_def)
  show "x \<le> y \<Longrightarrow> y \<le> x \<Longrightarrow> x = y"
    by (cases x; cases y) (auto simp add: less_eq_sql_value_def)
  show "x \<le> y \<or> y \<le> x"
    by (cases x; cases y) (auto simp add: less_eq_sql_value_def)
qed

end

record user =
  u_id :: nat
  u_username :: string
  u_email :: string
  u_password_hash :: string
  u_full_name :: string
  u_role :: string
  u_created_at :: string
  u_last_login :: "string option"
  u_is_active :: int

record event =
  e_id :: nat
  e_title :: string
  e_description :: string
  e_date :: sql_value
  e_time :: sql_value
  e_type :: string
  e_created_by :: "nat option"
  e_created_at :: string
  e_updated_at :: string

record session =
  s_id :: nat
  s_user_id :: nat
  s_token :: string
  s_expires_at :: string
  s_created_at :: string

record database =
  users :: "user list"
  events :: "event list"
  sessions :: "session list"
  users_seq :: nat
  events_seq :: nat
  sessions_seq :: nat

text \<open>
  What a rejected promise carries. The three constraint errors are the ones the schema
  can raise on the statements below; \<open>EventNotFound\<close> is the program's own
  \<^verbatim>\<open>new Error('Event not found')\<close>; \<open>StorageFailure\<close> is any other error the driver
  hands to the callback (it stands for a fault of the storage itself and is an input of
  every operation: the argument \<open>err\<close>).
\<close>

datatype db_error =
    UniqueConstraint string
  | NotNullConstraint string
  | CheckConstraint string
  | EventNotFound
  | StorageFailure string

fun error_message :: "db_error \<Rightarrow> string" where
  "error_message (UniqueConstraint col) = ''SQLITE_CONSTRAINT: UNIQUE constraint failed: '' @ col"
| "error_message (NotNullConstraint col) = ''SQLITE_CONSTRAINT: NOT NULL constraint failed: '' @ col"
| "error_message (CheckConstraint c) = ''SQLITE_CONSTRAINT: CHECK constraint failed: '' @ c"
| "error_message EventNotFound = ''Event not found''"
| "error_message (StorageFailure m) = m"

definition next_rowid :: "nat \<Rightarrow> nat list \<Rightarrow> nat" where
  "next_rowid seq ids = Suc (max seq (fold max ids 0))"

section \<open>Database: user management\<close>

record user_data =
  ud_username :: string
  ud_email :: string
  ud_password :: string
  ud_fullName :: string

record user_view =
  uv_id :: nat
  uv_username :: string
  uv_email :: string
  uv_fullName :: string

text \<open>
  \<^verbatim>\<open>bcrypt.hash(password, 10)\<close> and \<^verbatim>\<open>bcrypt.compare(password, hash)\<close> belong to a
  library outside the repository: they are the parameters \<open>hash\<close> (the call with the salt
  it draws) and \<open>compare\<close>. \<open>now\<close> is the clock at the statement.
\<close>

definition new_user :: "nat \<Rightarrow> string \<Rightarrow> string \<Rightarrow> string \<Rightarrow> string \<Rightarrow> string \<Rightarrow> user" where
  "new_user rid username email hashedPassword fullName created =
     \<lparr>u_id = rid, u_username = username, u_email = email, u_password_hash = hashedPassword,
      u_full_name = fullName, u_role = ''admin'', u_created_at = created,
      u_last_login = None, u_is_active = 1\<rparr>"

definition insert_user :: "user \<Rightarrow> database \<Rightarrow> database" where
  "insert_user u db = db\<lparr>users := users db @ [u], users_seq := u_id u\<rparr>"

definition createUser ::
  "db_error option \<Rightarrow> (string \<Rightarrow> string) \<Rightarrow> nat \<Rightarrow> user_data \<Rightarrow> database
     \<Rightarrow> db_error + (user_view \<times> database)" where
  "createUser err hash now userData db =
     (case err of
        Some e \<Rightarrow> Inl e
      | None \<Rightarrow>
          if \<exists>u \<in> set (users db). u_email u = ud_email userData
          then Inl (UniqueConstraint ''users.email'')
          else if \<exists>u \<in> set (users db). u_username u = ud_username userData
          then Inl (UniqueConstraint ''users.username'')
          else Inr (\<lparr>uv_id = next_rowid (users_seq db) (map u_id (users db)),
                      uv_username = ud_username userData,
                      uv_email = ud_email userData,
                      uv_fullName = ud_fullName userData\<rparr>,
                    insert_user
                      (new_user (next_rowid (users_seq db) (map u_id (users db)))
                         (ud_username userData) (ud_email userData)
                         (hash (ud_password userData)) (ud_fullName userData)
                         (CURRENT_TIMESTAMP now))
                      db))"

definition stamp_last_login :: "nat \<Rightarrow> string \<Rightarrow> database \<Rightarrow> database" where
  "stamp_last_login uid ts db =
     db\<lparr>users := map (\<lambda>u. if u_id u = uid then u\<lparr>u_last_login := Some ts\<rparr> else u) (users db)\<rparr>"

definition validateUser ::
  "db_error option \<Rightarrow> (string \<Rightarrow> string \<Rightarrow> bool) \<Rightarrow> nat \<Rightarrow> string \<Rightarrow> string \<Rightarrow> database
     \<Rightarrow> db_error + (user option \<times> database)" where
  "validateUser err compare now username password db =
     (case err of
        Some e \<Rightarrow> Inl e
      | None \<Rightarrow>
          (case find (\<lambda>u. u_username u = username \<and> u_is_active u = 1) (users db) of
             None \<Rightarrow> Inr (None, db)
           | Some user \<Rightarrow>
               if compare password (u_password_hash user)
               then Inr (Some user, stamp_last_login (u_id user) (CURRENT_TIMESTAMP now) db)
               else Inr (None, db)))"

section \<open>Database: session management\<close>

definition new_session :: "nat \<Rightarrow> nat \<Rightarrow> string \<Rightarrow> string \<Rightarrow> string \<Rightarrow> session" where
  "new_session rid userId tok expiresAt created =
     \<lparr>s_id = rid, s_user_id = userId, s_token = tok, s_expires_at = expiresAt,
      s_created_at = created\<rparr>"

definition insert_session :: "session \<Rightarrow> database \<Rightarrow> database" where
  "insert_session s db = db\<lparr>sessions := sessions db @ [s], sessions_seq := s_id s\<rparr>"

definition createSession ::
  "db_error option \<Rightarrow> nat \<Rightarrow> nat \<Rightarrow> string \<Rightarrow> string \<Rightarrow> database
     \<Rightarrow> db_error + (nat \<times> database)" where
  "createSession err now userId tok expiresAt db =
     (case err of
        Some e \<Rightarrow> Inl e
      | None \<Rightarrow>
          if \<exists>s \<in> set (sessions db). s_token s = tok
          then Inl (UniqueConstraint ''sessions.token'')
          else Inr (next_rowid (sessions_seq db) (map s_id (sessions db)),
                    insert_session
                      (new_session (next_rowid (sessions_seq db) (map s_id (sessions db)))
                         userId tok expiresAt (CURRENT_TIMESTAMP now))
                      db))"

text \<open>The row of \<^verbatim>\<open>SELECT s.*, u.username, u.full_name, u.role\<close>.\<close>

record session_row =
  sr_id :: nat
  sr_user_id :: nat
  sr_token :: string
  sr_expires_at :: string
  sr_created_at :: string
  sr_username :: string
  sr_full_name :: string
  sr_role :: string

definition session_row_of :: "session \<Rightarrow> user \<Rightarrow> session_row" where
  "session_row_of s u =
     \<lparr>sr_id = s_id s, sr_user_id = s_user_id s, sr_token = s_token s,
      sr_expires_at = s_expires_at s, sr_created_at = s_created_at s,
      sr_username = u_username u, sr_full_name = u_full_name u, sr_role = u_role u\<rparr>"

text \<open>\<^verbatim>\<open>FROM sessions s JOIN users u ON s.user_id = u.id\<close>\<close>

definition session_join :: "database \<Rightarrow> (session \<times> user) list" where
  "session_join db =
     concat (map (\<lambda>s. map (Pair s) (filter (\<lambda>u. s_user_id s = u_id u) (users db)))
               (sessions db))"

text \<open>
  \<^verbatim>\<open>WHERE s.token = ? AND s.expires_at > CURRENT_TIMESTAMP AND u.is_active = 1\<close>;
  \<^verbatim>\<open>db.get\<close> hands over the first row, or \<^verbatim>\<open>undefined\<close> (here \<open>None\<close>).
  The column \<^verbatim>\<open>expires_at\<close> holds the text \<open>createSession\<close> was given and
  \<^verbatim>\<open>CURRENT_TIMESTAMP\<close> is text too; neither reads as a number, so the numeric affinity
  of a \<^verbatim>\<open>DATETIME\<close> column converts nothing and the comparison is the one of TEXT
  values: the order on strings.
\<close>

definition session_live :: "nat \<Rightarrow> string \<Rightarrow> session \<times> user \<Rightarrow> bool" where
  "session_live now tok r =
     (s_token (fst r) = tok \<and> CURRENT_TIMESTAMP now < s_expires_at (fst r)
        \<and> u_is_active (snd r) = 1)"

definition validateSession ::
  "db_error option \<Rightarrow> nat \<Rightarrow> string \<Rightarrow> database \<Rightarrow> db_error + session_row option" where
  "validateSession err now tok db =
     (case err of
        Some e \<Rightarrow> Inl e
      | None \<Rightarrow>
          Inr (case filter (session_live now tok) (session_join db) of
                 [] \<Rightarrow> None
               | r # _ \<Rightarrow> Some (session_row_of (fst r) (snd r))))"

definition deleteSession ::
  "db_error option \<Rightarrow> string \<Rightarrow> database \<Rightarrow> db_error + database" where
  "deleteSession err tok db =
     (case err of
        Some e \<Rightarrow> Inl e
      | None \<Rightarrow> Inr (db\<lparr>sessions := filter (\<lambda>s. s_token s \<noteq> tok) (sessions db)\<rparr>))"

text \<open>\<^verbatim>\<open>DELETE FROM sessions WHERE expires_at <= CURRENT_TIMESTAMP\<close>, resolving with
  \<^verbatim>\<open>this.changes\<close>.\<close>

definition cleanupExpiredSessions ::
  "db_error option \<Rightarrow> nat \<Rightarrow> database \<Rightarrow> db_error + (nat \<times> database)" where
  "cleanupExpiredSessions err now db =
     (case err of
        Some e \<Rightarrow> Inl e
      | None \<Rightarrow>
          Inr (length (filter (\<lambda>s. s_expires_at s \<le> CURRENT_TIMESTAMP now) (sessions db)),
               db\<lparr>sessions :=
                    filter (\<lambda>s. \<not> s_expires_at s \<le> CURRENT_TIMESTAMP now) (sessions db)\<rparr>))"

section \<open>Database: event management\<close>

text \<open>
  The five fields of a request body. A field the body lacks, or gives as null, is bound
  as NULL: it is \<open>None\<close> here.
\<close>

record event_data =
  ed_title :: "string option"
  ed_description :: "string option"
  ed_date :: "string option"
  ed_time :: "string option"
  ed_type :: "string option"

text \<open>The five values once none of them is null.\<close>

record event_values =
  ev_title :: string
  ev_description :: string
  ev_date :: string
  ev_time :: string
  ev_type :: string

text \<open>The \<^verbatim>\<open>NOT NULL\<close> constraints of the five columns, tested in the order of the
  columns and before the CHECK constraint.\<close>

definition not_null :: "event_data \<Rightarrow> db_error + event_values" where
  "not_null d =
     (case ed_title d of
        None \<Rightarrow> Inl (NotNullConstraint ''events.title'')
      | Some t \<Rightarrow>
     (case ed_description d of
        None \<Rightarrow> Inl (NotNullConstraint ''events.description'')
      | Some ds \<Rightarrow>
     (case ed_date d of
        None \<Rightarrow> Inl (NotNullConstraint ''events.date'')
      | Some da \<Rightarrow>
     (case ed_time d of
        None \<Rightarrow> Inl (NotNullConstraint ''events.time'')
      | Some ti \<Rightarrow>
     (case ed_type d of
        None \<Rightarrow> Inl (NotNullConstraint ''events.type'')
      | Some ty \<Rightarrow>
          Inr \<lparr>ev_title = t, ev_description = ds, ev_date = da, ev_time = ti,
               ev_type = ty\<rparr>)))))"

text \<open>\<^verbatim>\<open>CHECK(type IN ('assignment', 'webinar', 'workshop'))\<close>, and the text of
  the constraint as the error message quotes it.\<close>

definition type_check :: "string \<Rightarrow> bool" where
  "type_check t = (t \<in> set [''assignment'', ''webinar'', ''workshop''])"

definition type_check_text :: string where
  "type_check_text =
     ''type IN ('' @ [CHR 0x27] @ ''assignment'' @ [CHR 0x27] @ '', '' @ [CHR 0x27]
       @ ''webinar'' @ [CHR 0x27] @ '', '' @ [CHR 0x27] @ ''workshop'' @ [CHR 0x27] @ '')''"

text \<open>The row of \<^verbatim>\<open>SELECT e.*, u.username as created_by_username\<close>.\<close>

record event_row =
  er_event :: event
  er_created_by_username :: "string option"

text \<open>
  \<^verbatim>\<open>FROM events e LEFT JOIN users u ON e.created_by = u.id\<close>: one row for each user
  the event matches, and one row with a null username when it matches none.
\<close>

definition left_join_users :: "user list \<Rightarrow> event \<Rightarrow> event_row list" where
  "left_join_users us e =
     (case filter (\<lambda>u. e_created_by e = Some (u_id u)) us of
        [] \<Rightarrow> [\<lparr>er_event = e, er_created_by_username = None\<rparr>]
      | ms \<Rightarrow> map (\<lambda>u. \<lparr>er_event = e, er_created_by_username = Some (u_username u)\<rparr>) ms)"

text \<open>\<^verbatim>\<open>ORDER BY e.date ASC, e.time ASC\<close>: the key of a row, a pair of stored values
  ordered first component first. Rows with equal keys keep the order of the join.\<close>

definition order_key :: "event_row \<Rightarrow> sql_value \<times> sql_value" where
  "order_key r = (e_date (er_event r), e_time (er_event r))"

definition getAllEvents :: "db_error option \<Rightarrow> database \<Rightarrow> db_error + event_row list" where
  "getAllEvents err db =
     (case err of
        Some e \<Rightarrow> Inl e
      | None \<Rightarrow> Inr (sort_key order_key (concat (map (left_join_users (users db)) (events db)))))"

definition getEventsByType ::
  "db_error option \<Rightarrow> string \<Rightarrow> database \<Rightarrow> db_error + event_row list" where
  "getEventsByType err t db =
     (case err of
        Some e \<Rightarrow> Inl e
      | None \<Rightarrow>
          Inr (sort_key order_key
                 (concat (map (left_join_users (users db))
                            (filter (\<lambda>e. e_type e = t) (events db))))))"

text \<open>What \<^verbatim>\<open>createEvent\<close> resolves with: the values as the request gave them.\<close>

record created_event =
  ce_id :: nat
  ce_title :: string
  ce_description :: string
  ce_date :: string
  ce_time :: string
  ce_type :: string
  ce_created_by :: nat
  ce_created_at :: string

definition new_event :: "nat \<Rightarrow> event_values \<Rightarrow> nat \<Rightarrow> string \<Rightarrow> event" where
  "new_event rid v createdBy created =
     \<lparr>e_id = rid, e_title = ev_title v, e_description = ev_description v,
      e_date = numeric_affinity (ev_date v), e_time = numeric_affinity (ev_time v),
      e_type = ev_type v, e_created_by = Some createdBy, e_created_at = created,
      e_updated_at = created\<rparr>"

definition insert_event :: "event \<Rightarrow> database \<Rightarrow> database" where
  "insert_event e db = db\<lparr>events := events db @ [e], events_seq := e_id e\<rparr>"

definition createEvent ::
  "db_error option \<Rightarrow> nat \<Rightarrow> event_data \<Rightarrow> nat \<Rightarrow> database
     \<Rightarrow> db_error + (created_event \<times> database)" where
  "createEvent err now eventData createdBy db =
     (case err of
        Some e \<Rightarrow> Inl e
      | None \<Rightarrow>
          (case not_null eventData of
             Inl e \<Rightarrow> Inl e
           | Inr v \<Rightarrow>
               if \<not> type_check (ev_type v)
               then Inl (CheckConstraint type_check_text)
               else Inr (\<lparr>ce_id = next_rowid (events_seq db) (map e_id (events db)),
                           ce_title = ev_title v,
                           ce_description = ev_description v,
                           ce_date = ev_date v,
                           ce_time = ev_time v,
                           ce_type = ev_type v,
                           ce_created_by = createdBy,
                           ce_created_at = toISOString now\<rparr>,
                         insert_event
                           (new_event (next_rowid (events_seq db) (map e_id (events db)))
                              v createdBy (CURRENT_TIMESTAMP now))
                           db)))"

text \<open>What \<^verbatim>\<open>updateEvent\<close> resolves with.\<close>

record updated_event =
  ue_id :: nat
  ue_title :: string
  ue_description :: string
  ue_date :: string
  ue_time :: string
  ue_type :: string

definition set_event :: "event_values \<Rightarrow> string \<Rightarrow> event \<Rightarrow> event" where
  "set_event v ts e =
     e\<lparr>e_title := ev_title v, e_description := ev_description v,
       e_date := numeric_affinity (ev_date v), e_time := numeric_affinity (ev_time v),
       e_type := ev_type v, e_updated_at := ts\<rparr>"

text \<open>
  \<^verbatim>\<open>UPDATE events SET ... WHERE id = ?\<close>. The constraints are tested on each row the
  statement rewrites, so none can fail when no row matches; then
  \<^verbatim>\<open>this.changes === 0\<close> rejects with \<^verbatim>\<open>Event not found\<close>.
\<close>

definition updateEvent ::
  "db_error option \<Rightarrow> nat \<Rightarrow> nat \<Rightarrow> event_data \<Rightarrow> database
     \<Rightarrow> db_error + (updated_event \<times> database)" where
  "updateEvent err now eventId eventData db =
     (case err of
        Some e \<Rightarrow> Inl e
      | None \<Rightarrow>
          if length (filter (\<lambda>e. e_id e = eventId) (events db)) = 0
          then Inl EventNotFound
          else (case not_null eventData of
                  Inl e \<Rightarrow> Inl e
                | Inr v \<Rightarrow>
                    if \<not> type_check (ev_type v)
                    then Inl (CheckConstraint type_check_text)
                    else Inr (\<lparr>ue_id = eventId, ue_title = ev_title v,
                                ue_description = ev_description v, ue_date = ev_date v,
                                ue_time = ev_time v, ue_type = ev_type v\<rparr>,
                              db\<lparr>events :=
                                   map (\<lambda>e. if e_id e = eventId
                                             then set_event v (CURRENT_TIMESTAMP now) e
                                             else e)
                                     (events db)\<rparr>)))"

definition deleteEvent ::
  "db_error option \<Rightarrow> nat \<Rightarrow> database \<Rightarrow> db_error + database" where
  "deleteEvent err eventId db =
     (case err of
        Some e \<Rightarrow> Inl e
      | None \<Rightarrow>
          if length (filter (\<lambda>e. e_id e = eventId) (events db)) = 0
          then Inl EventNotFound
          else Inr (db\<lparr>events := filter (\<lambda>e. e_id e \<noteq> eventId) (events db)\<rparr>))"

section \<open>Server\<close>

text \<open>
  A handler runs at one clock value \<open>now\<close>, takes the database and returns the response
  with the database it leaves. In the bodies of registration and login, a field that
  is missing and one that is the empty string are both falsy in the handler's checks;
  both are the empty string here.
\<close>

record req_user =
  ru_id :: nat
  ru_username :: string
  ru_fullName :: string
  ru_role :: string

datatype body =
    ErrorBody string
  | RegisterBody user_view
  | LoginBody string user_view
  | VerifyBody req_user
  | MessageBody string
  | EventsBody "event_row list"
  | CreatedBody created_event
  | UpdatedBody updated_event

datatype response = Response (status: nat) (body: body)

definition startsWith :: "string \<Rightarrow> string \<Rightarrow> bool" where
  "startsWith s p = (take (length p) s = p)"

fun str_includes :: "string \<Rightarrow> string \<Rightarrow> bool" where
  "str_includes [] p = (p = [])"
| "str_includes (c # cs) p = (startsWith (c # cs) p \<or> str_includes cs p)"

text \<open>\<^verbatim>\<open>crypto.randomBytes(32).toString('hex')\<close>, the bytes drawn being the argument.\<close>

definition hexdigit :: "nat \<Rightarrow> char" where
  "hexdigit n = ''0123456789abcdef'' ! (n mod 16)"

definition generateToken :: "nat list \<Rightarrow> string" where
  "generateToken bytes = concat (map (\<lambda>b. [hexdigit (b div 16), hexdigit b]) bytes)"

text \<open>
  The middleware: \<open>Inl\<close> is the response it sends itself, \<open>Inr\<close> is the
  \<^verbatim>\<open>req.user\<close> it attaches before calling \<^verbatim>\<open>next()\<close>. The header is \<open>None\<close> when the
  request has none.
\<close>

definition authenticateAdmin ::
  "db_error option \<Rightarrow> nat \<Rightarrow> string option \<Rightarrow> database \<Rightarrow> response + req_user" where
  "authenticateAdmin err now authHeader db =
     (case authHeader of
        None \<Rightarrow> Inl (Response 401 (ErrorBody ''Access denied. No token provided.''))
      | Some h \<Rightarrow>
          if h = [] \<or> \<not> startsWith h ''Bearer ''
          then Inl (Response 401 (ErrorBody ''Access denied. No token provided.''))
          else (case validateSession err now (drop 7 h) db of
                  Inl e \<Rightarrow> Inl (Response 500 (ErrorBody ''Authentication failed''))
                | Inr None \<Rightarrow> Inl (Response 401 (ErrorBody ''Invalid or expired token.''))
                | Inr (Some session) \<Rightarrow>
                    Inr \<lparr>ru_id = sr_user_id session, ru_username = sr_username session,
                         ru_fullName = sr_full_name session, ru_role = sr_role session\<rparr>))"

definition register_error :: "db_error \<Rightarrow> response" where
  "register_error e =
     (if str_includes (error_message e) ''UNIQUE constraint failed''
      then (if str_includes (error_message e) ''username''
            then Response 400 (ErrorBody ''Username already exists'')
            else if str_includes (error_message e) ''email''
            then Response 400 (ErrorBody ''Email already exists'')
            else Response 400 (ErrorBody ''User already exists''))
      else Response 500 (ErrorBody ''Registration failed''))"

definition post_api_auth_register ::
  "db_error option \<Rightarrow> (string \<Rightarrow> string) \<Rightarrow> nat \<Rightarrow> user_data \<Rightarrow> database
     \<Rightarrow> response \<times> database" where
  "post_api_auth_register err hash now req db =
     (if ud_fullName req = [] \<or> ud_email req = [] \<or> ud_username req = [] \<or> ud_password req = []
      then (Response 400 (ErrorBody ''All fields are required''), db)
      else if length (ud_password req) < 6
      then (Response 400 (ErrorBody ''Password must be at least 6 characters long''), db)
      else (case createUser err hash now req db of
              Inr (user, db') \<Rightarrow> (Response 201 (RegisterBody user), db')
            | Inl e \<Rightarrow> (register_error e, db)))"

definition login_user_view :: "user \<Rightarrow> user_view" where
  "login_user_view user =
     \<lparr>uv_id = u_id user, uv_username = u_username user, uv_email = u_email user,
      uv_fullName = u_full_name user\<rparr>"

text \<open>
  \<open>err_user\<close> and \<open>err_session\<close> are the storage faults of the two statements whose
  callbacks the handler waits for; \<open>bytes\<close> are the random bytes of the token.
\<close>

definition post_api_auth_login ::
  "db_error option \<Rightarrow> db_error option \<Rightarrow> (string \<Rightarrow> string \<Rightarrow> bool) \<Rightarrow> nat list \<Rightarrow> nat
     \<Rightarrow> string \<Rightarrow> string \<Rightarrow> database \<Rightarrow> response \<times> database" where
  "post_api_auth_login err_user err_session compare bytes now username password db =
     (if username = [] \<or> password = []
      then (Response 400 (ErrorBody ''Username and password are required''), db)
      else (case validateUser err_user compare now username password db of
              Inl e \<Rightarrow> (Response 500 (ErrorBody ''Login failed''), db)
            | Inr (None, db') \<Rightarrow> (Response 401 (ErrorBody ''Invalid credentials''), db')
            | Inr (Some user, db') \<Rightarrow>
                (case createSession err_session now (u_id user) (generateToken bytes)
                        (toISOString (now + 24 * 60 * 60 * 1000)) db' of
                   Inl e \<Rightarrow> (Response 500 (ErrorBody ''Login failed''), db')
                 | Inr (sid, db'') \<Rightarrow>
                     (Response 200 (LoginBody (generateToken bytes) (login_user_view user)),
                      db''))))"

definition get_api_auth_verify ::
  "db_error option \<Rightarrow> nat \<Rightarrow> string option \<Rightarrow> database \<Rightarrow> response" where
  "get_api_auth_verify err now authHeader db =
     (case authenticateAdmin err now authHeader db of
        Inl r \<Rightarrow> r
      | Inr user \<Rightarrow> Response 200 (VerifyBody user))"

definition post_api_auth_logout ::
  "db_error option \<Rightarrow> db_error option \<Rightarrow> nat \<Rightarrow> string option \<Rightarrow> database
     \<Rightarrow> response \<times> database" where
  "post_api_auth_logout err_auth err now authHeader db =
     (case authenticateAdmin err_auth now authHeader db of
        Inl r \<Rightarrow> (r, db)
      | Inr user \<Rightarrow>
          (case deleteSession err (drop 7 (case authHeader of None \<Rightarrow> [] | Some h \<Rightarrow> h)) db of
             Inl e \<Rightarrow> (Response 500 (ErrorBody ''Logout failed''), db)
           | Inr db' \<Rightarrow> (Response 200 (MessageBody ''Logged out successfully''), db')))"

definition get_api_events :: "db_error option \<Rightarrow> database \<Rightarrow> response" where
  "get_api_events err db =
     (case getAllEvents err db of
        Inl e \<Rightarrow> Response 500 (ErrorBody ''Failed to fetch events'')
      | Inr evs \<Rightarrow> Response 200 (EventsBody evs))"

definition post_api_events ::
  "db_error option \<Rightarrow> db_error option \<Rightarrow> nat \<Rightarrow> string option \<Rightarrow> event_data \<Rightarrow> database
     \<Rightarrow> response \<times> database" where
  "post_api_events err_auth err now authHeader req db =
     (case authenticateAdmin err_auth now authHeader db of
        Inl r \<Rightarrow> (r, db)
      | Inr user \<Rightarrow>
          (case createEvent err now req (ru_id user) db of
             Inl e \<Rightarrow> (Response 500 (ErrorBody ''Failed to create event''), db)
           | Inr (ev, db') \<Rightarrow> (Response 201 (CreatedBody ev), db')))"

text \<open>The route parameter \<^verbatim>\<open>:id\<close> is the number the comparison with the integer
  column reads it as.\<close>

definition put_api_events_id ::
  "db_error option \<Rightarrow> db_error option \<Rightarrow> nat \<Rightarrow> string option \<Rightarrow> nat \<Rightarrow> event_data
     \<Rightarrow> database \<Rightarrow> response \<times> database" where
  "put_api_events_id err_auth err now authHeader eventId req db =
     (case authenticateAdmin err_auth now authHeader db of
        Inl r \<Rightarrow> (r, db)
      | Inr user \<Rightarrow>
          (case updateEvent err now eventId req db of
             Inl e \<Rightarrow>
               if error_message e = ''Event not found''
               then (Response 404 (ErrorBody ''Event not found''), db)
               else (Response 500 (ErrorBody ''Failed to update event''), db)
           | Inr (ev, db') \<Rightarrow> (Response 200 (UpdatedBody ev), db')))"

definition delete_api_events_id ::
  "db_error option \<Rightarrow> db_error option \<Rightarrow> nat \<Rightarrow> string option \<Rightarrow> nat \<Rightarrow> database
     \<Rightarrow> response \<times> database" where
  "delete_api_events_id err_auth err now authHeader eventId db =
     (case authenticateAdmin err_auth now authHeader db of
        Inl r \<Rightarrow> (r, db)
      | Inr user \<Rightarrow>
          (case deleteEvent err eventId db of
             Inl e \<Rightarrow>
               if error_message e = ''Event not found''
               then (Response 404 (ErrorBody ''Event not found''), db)
               else (Response 500 (ErrorBody ''Failed to delete event''), db)
           | Inr db' \<Rightarrow> (Response 200 (MessageBody ''Event deleted successfully''), db')))"

text \<open>The hourly task: the count is only logged, a failure is only logged.\<close>

definition cleanup_task :: "db_error option \<Rightarrow> nat \<Rightarrow> database \<Rightarrow> database" where
  "cleanup_task err now db =
     (case cleanupExpiredSessions err now db of
        Inl e \<Rightarrow> db
      | Inr (deletedCount, db') \<Rightarrow> db')"

section \<open>Sample data\<close>

text \<open>
  A small store and stand-ins for the two library calls, used to run the operations on
  concrete inputs: \<open>stub_hash\<close> and \<open>stub_compare\<close> take the place of
  \<^verbatim>\<open>bcrypt.hash\<close> and \<^verbatim>\<open>bcrypt.compare\<close> (a hash matches the password it was made
  from and no other). The clock values are 2025-09-01T09:00:00Z for the login and later
  instants named after what they are.
\<close>

definition stub_hash :: "string \<Rightarrow> string" where
  "stub_hash p = ''$2b$10$'' @ rev p"

definition stub_compare :: "string \<Rightarrow> string \<Rightarrow> bool" where
  "stub_compare p h = (h = stub_hash p)"

definition alice :: user where
  "alice = \<lparr>u_id = 1, u_username = ''alice'', u_email = ''a@x.com'',
            u_password_hash = ''$2b$10$1terces'', u_full_name = ''Alice A'',
            u_role = ''admin'', u_created_at = ''2025-08-31 12:00:00'',
            u_last_login = None, u_is_active = 1\<rparr>"

definition quiz :: event where
  "quiz = \<lparr>e_id = 1, e_title = ''Quiz'', e_description = ''Ch.1'', e_date = SqlText ''2025-09-10'',
           e_time = SqlText ''09:00'', e_type = ''assignment'', e_created_by = Some 1,
           e_created_at = ''2025-08-31 12:05:00'', e_updated_at = ''2025-08-31 12:05:00''\<rparr>"

definition talk :: event where
  "talk = \<lparr>e_id = 2, e_title = ''Talk'', e_description = ''Guest'', e_date = SqlText ''2025-09-01'',
           e_time = SqlText ''14:00'', e_type = ''webinar'', e_created_by = None,
           e_created_at = ''2025-08-31 12:06:00'', e_updated_at = ''2025-08-31 12:06:00''\<rparr>"

definition lab :: event where
  "lab = \<lparr>e_id = 3, e_title = ''Lab'', e_description = ''Bring laptop'', e_date = SqlText ''2025-09-01'',
          e_time = SqlText ''09:30'', e_type = ''workshop'', e_created_by = Some 7,
          e_created_at = ''2025-08-31 12:07:00'', e_updated_at = ''2025-08-31 12:07:00''\<rparr>"

definition store0 :: database where
  "store0 = \<lparr>users = [alice], events = [quiz, talk, lab], sessions = [],
             users_seq = 1, events_seq = 3, sessions_seq = 0\<rparr>"

definition t_login :: nat where
  "t_login = 1756717200000"

definition random32 :: "nat list" where
  "random32 = [171, 205, 239, 1, 35, 69, 103, 137, 171, 205, 239, 1, 35, 69, 103, 137,
               171, 205, 239, 1, 35, 69, 103, 137, 171, 205, 239, 1, 35, 69, 103, 137]"

definition token1 :: string where
  "token1 = ''abcdef0123456789abcdef0123456789abcdef0123456789abcdef0123456789''"

text \<open>The store after alice has logged in at \<open>t_login\<close> with the token \<open>token1\<close>.\<close>

definition session1 :: session where
  "session1 = \<lparr>s_id = 1, s_user_id = 1, s_token = token1,
               s_expires_at = ''2025-09-02T09:00:00.000Z'',
               s_created_at = ''2025-09-01 09:00:00''\<rparr>"

definition store1 :: database where
  "store1 = \<lparr>users = [alice\<lparr>u_last_login := Some ''2025-09-01 09:00:00''\<rparr>],
              events = [quiz, talk, lab], sessions = [session1],
              users_seq = 1, events_seq = 3, sessions_seq = 1\<rparr>"

text \<open>The row \<open>validateSession\<close> finds for \<open>token1\<close> in \<open>store1\<close> while the session counts as live.\<close>

definition row1 :: session_row where
  "row1 = \<lparr>sr_id = 1, sr_user_id = 1, sr_token = token1,
           sr_expires_at = ''2025-09-02T09:00:00.000Z'', sr_created_at = ''2025-09-01 09:00:00'',
           sr_username = ''alice'', sr_full_name = ''Alice A'', sr_role = ''admin''\<rparr>"

text \<open>
  Two request bodies for the event endpoints, one with a type outside the three values
  and one with a valid type; the sample store with alice switched off; and a
  registration by a second person.
\<close>

definition party :: event_data where
  "party = \<lparr>ed_title = Some ''Party'', ed_description = Some ''Fun'',
            ed_date = Some ''2025-09-05'', ed_time = Some ''18:00'', ed_type = Some ''party''\<rparr>"

definition retitled :: event_data where
  "retitled = \<lparr>ed_title = Some ''Quiz 1'', ed_description = Some ''Ch.1-2'',
               ed_date = Some ''2025-09-11'', ed_time = Some ''10:00'',
               ed_type = Some ''assignment''\<rparr>"

definition store_off :: database where
  "store_off = store0\<lparr>users := [alice\<lparr>u_is_active := 0\<rparr>]\<rparr>"

definition bob_reg :: user_data where
  "bob_reg = \<lparr>ud_username = ''bob'', ud_email = ''b@x.com'', ud_password = ''hunter22'',
              ud_fullName = ''Bob B''\<rparr>"

text \<open>A request body for an update that lacks the title.\<close>

definition untitled :: event_data where
  "untitled = \<lparr>ed_title = None, ed_description = Some ''Ch.1-2'',
               ed_date = Some ''2025-09-11'', ed_time = Some ''10:00'',
               ed_type = Some ''assignment''\<rparr>"

text \<open>
  Two request bodies on the same date whose times read as numbers, the events the table
  holds for them, and the stores after the first and after both have been created in an
  event table that was empty.
\<close>

definition at_ten :: event_data where
  "at_ten = \<lparr>ed_title = Some ''B'', ed_description = Some ''later'',
             ed_date = Some ''2025-09-01'', ed_time = Some ''10'', ed_type = Some ''webinar''\<rparr>"

definition at_nine :: event_data where
  "at_nine = \<lparr>ed_title = Some ''A'', ed_description = Some ''earlier'',
              ed_date = Some ''2025-09-01'', ed_time = Some ''9'', ed_type = Some ''webinar''\<rparr>"

definition event_ten :: event where
  "event_ten = \<lparr>e_id = 4, e_title = ''B'', e_description = ''later'',
                e_date = SqlText ''2025-09-01'', e_time = SqlNumber 10, e_type = ''webinar'',
                e_created_by = Some 1, e_created_at = ''2025-09-01 09:00:00'',
                e_updated_at = ''2025-09-01 09:00:00''\<rparr>"

definition event_nine :: event where
  "event_nine = \<lparr>e_id = 5, e_title = ''A'', e_description = ''earlier'',
                 e_date = SqlText ''2025-09-01'', e_time = SqlNumber 9, e_type = ''webinar'',
                 e_created_by = Some 1, e_created_at = ''2025-09-01 09:00:00'',
                 e_updated_at = ''2025-09-01 09:00:00''\<rparr>"

definition store_none :: database where
  "store_none = store0\<lparr>events := []\<rparr>"

definition store_ten :: database where
  "store_ten = store0\<lparr>events := [event_ten], events_seq := 4\<rparr>"

definition store_ten_nine :: database where
  "store_ten_nine = store0\<lparr>events := [event_ten, event_nine], events_seq := 5\<rparr>"

section \<open>Running the sample data\<close>

lemmas civil_defs = civil_from_days_def civil_doe_def year_of_def day_of_def month_of_def
  mp_of_def doy_of_def yoe_of_def
lemmas text_defs = date_text_def clock_text_def pad2_def pad3_def pad4_def digit_def

lemma token1_generated: "generateToken random32 = token1"
  by (simp add: generateToken_def random32_def token1_def hexdigit_def)

lemma now_login: "CURRENT_TIMESTAMP t_login = ''2025-09-01 09:00:00''"
  by (simp add: CURRENT_TIMESTAMP_def t_login_def text_defs civil_defs)

lemma expiry_login: "toISOString (t_login + 86400000) = ''2025-09-02T09:00:00.000Z''"
  by (simp add: toISOString_def t_login_def text_defs civil_defs)

lemma now_before_expiry: "CURRENT_TIMESTAMP 1756803599000 = ''2025-09-02 08:59:59''"
  by (simp add: CURRENT_TIMESTAMP_def text_defs civil_defs)

lemma now_after_expiry: "CURRENT_TIMESTAMP 1756803601000 = ''2025-09-02 09:00:01''"
  by (simp add: CURRENT_TIMESTAMP_def text_defs civil_defs)

lemma now_hour_after_expiry: "CURRENT_TIMESTAMP 1756807200000 = ''2025-09-02 10:00:00''"
  by (simp add: CURRENT_TIMESTAMP_def text_defs civil_defs)

lemma now_end_of_day: "CURRENT_TIMESTAMP 1756857599000 = ''2025-09-02 23:59:59''"
  by (simp add: CURRENT_TIMESTAMP_def text_defs civil_defs)

lemma now_next_day: "CURRENT_TIMESTAMP 1756857600000 = ''2025-09-03 00:00:00''"
  by (simp add: CURRENT_TIMESTAMP_def text_defs civil_defs)

lemma session_join_store1:
  "session_join store1 = [(session1, alice\<lparr>u_last_login := Some ''2025-09-01 09:00:00''\<rparr>)]"
  by (simp add: session_join_def store1_def session1_def alice_def)

lemma login_store0:
  "post_api_auth_login None None stub_compare random32 t_login ''alice'' ''secret1'' store0
     = (Response 200 (LoginBody token1 \<lparr>uv_id = 1, uv_username = ''alice'', uv_email = ''a@x.com'', uv_fullName = ''Alice A''\<rparr>), store1)"
  by (simp add: post_api_auth_login_def validateUser_def createSession_def store0_def store1_def
      alice_def stub_compare_def stub_hash_def token1_generated now_login expiry_login
      stamp_last_login_def insert_session_def new_session_def next_rowid_def login_user_view_def session1_def)

lemma validate_store1:
  "validateSession None now token1 store1 =
     Inr (if CURRENT_TIMESTAMP now < ''2025-09-02T09:00:00.000Z'' then Some row1 else None)"
  by (simp add: validateSession_def session_join_store1 session_live_def session_row_of_def
      session1_def alice_def row1_def)

lemma login_view_alice:
  "login_user_view alice =
     \<lparr>uv_id = 1, uv_username = ''alice'', uv_email = ''a@x.com'', uv_fullName = ''Alice A''\<rparr>"
  by (simp add: login_user_view_def alice_def)

section \<open>Session lifetime\<close>

lemma common_prefix_less: "(xs @ ys < xs @ zs) = (ys < (zs :: string))"
  by (induction xs) simp_all

text \<open>
  Whatever the time of day, the SQL rendering of a clock value is below the ISO
  rendering of any clock value of the same day: they agree on the date and then a space
  meets \<open>T\<close>.
\<close>

lemma same_day_below_iso:
  "date_text now = date_text expiry \<Longrightarrow> CURRENT_TIMESTAMP now < toISOString expiry"
  by (simp add: CURRENT_TIMESTAMP_def toISOString_def common_prefix_less)

text \<open>
  C1. A token returned by login should validate until its expiry, creation + 24 hours, and
  stop validating after it. Run on the sample store: alice logs in at
  2025-09-01T09:00:00Z, the session row gets \<^verbatim>\<open>expires_at = 2025-09-02T09:00:00.000Z\<close>
  (\<open>toISOString\<close>), and \<open>validateSession\<close> compares that text with
  \<^verbatim>\<open>CURRENT_TIMESTAMP\<close>, whose eleventh character is a space where the stored text has
  \<open>T\<close> (\<open>same_day_below_iso\<close>). The token validates at once and one second before the
  expiry, and still validates one second after it and up to 23:59:59 of that day; it
  stops validating at 00:00:00 of the next day.
\<close>

theorem session_outlives_expiry:
  "post_api_auth_login None None stub_compare random32 t_login ''alice'' ''secret1'' store0
     = (Response 200 (LoginBody token1 (login_user_view alice)), store1)
   \<and> map s_expires_at (sessions store1) = [toISOString (t_login + 24 * 60 * 60 * 1000)]
   \<and> t_login + 24 * 60 * 60 * 1000 = 1756803600000
   \<and> validateSession None t_login token1 store1 = Inr (Some row1)
   \<and> validateSession None (1756803600000 - 1000) token1 store1 = Inr (Some row1)
   \<and> validateSession None (1756803600000 + 1000) token1 store1 = Inr (Some row1)
   \<and> validateSession None 1756857599000 token1 store1 = Inr (Some row1)
   \<and> validateSession None 1756857600000 token1 store1 = Inr None"
proof -
  have a: "post_api_auth_login None None stub_compare random32 t_login ''alice'' ''secret1'' store0
     = (Response 200 (LoginBody token1 (login_user_view alice)), store1)"
    by (simp only: login_store0 login_view_alice)
  have b: "map s_expires_at (sessions store1) = [toISOString (t_login + 24 * 60 * 60 * 1000)]"
    by (simp add: store1_def session1_def expiry_login)
  have c: "t_login + 24 * 60 * 60 * 1000 = 1756803600000"
    by (simp add: t_login_def)
  have i: "validateSession None t_login token1 store1 = Inr (Some row1)"
    by (simp add: validate_store1 now_login)
  have d: "validateSession None (1756803600000 - 1000) token1 store1 = Inr (Some row1)"
    by (simp add: validate_store1 now_before_expiry)
  have e: "validateSession None (1756803600000 + 1000) token1 store1 = Inr (Some row1)"
    by (simp add: validate_store1 now_after_expiry)
  have f: "validateSession None 1756857599000 token1 store1 = Inr (Some row1)"
    by (simp add: validate_store1 now_end_of_day)
  have g: "validateSession None 1756857600000 token1 store1 = Inr None"
    by (simp add: validate_store1 now_next_day)
  from a b c i d e f g show ?thesis by blast
qed

section \<open>Sweep of expired sessions\<close>

text \<open>
  What the sweep does in terms of the stored text, with the storage working: it removes
  the sessions whose \<^verbatim>\<open>expires_at\<close> text is at or below the SQL rendering of the clock,
  keeps the others in their order, returns the number removed, and leaves the other
  tables alone.
\<close>

lemma sweep_effect:
  "\<exists>n db'. cleanupExpiredSessions None now db = Inr (n, db')
     \<and> sessions db' = filter (\<lambda>s. CURRENT_TIMESTAMP now < s_expires_at s) (sessions db)
     \<and> n + length (sessions db') = length (sessions db)
     \<and> users db' = users db \<and> events db' = events db"
proof -
  have "length (filter (\<lambda>s. s_expires_at s \<le> CURRENT_TIMESTAMP now) (sessions db))
        + length (filter (\<lambda>s. \<not> s_expires_at s \<le> CURRENT_TIMESTAMP now) (sessions db))
        = length (sessions db)"
    by (rule sum_length_filter_compl)
  then show ?thesis
    by (simp add: cleanupExpiredSessions_def not_le)
qed

lemma sweep_store1:
  "cleanupExpiredSessions None now store1 =
     (if ''2025-09-02T09:00:00.000Z'' \<le> CURRENT_TIMESTAMP now
      then Inr (1, store1\<lparr>sessions := []\<rparr>) else Inr (0, store1))"
  by (simp add: cleanupExpiredSessions_def store1_def session1_def)

text \<open>
  C2. The sweep should delete exactly the sessions whose expiry is at or before the
  current time and return their number. Run on the sample store, whose one session
  expired at 2025-09-02T09:00:00Z: the sweep at 10:00:00 and at 23:59:59 of that day
  deletes nothing and returns 0; the sweep at 00:00:00 of the next day deletes the row.
\<close>

theorem sweep_keeps_expired_session:
  "map s_expires_at (sessions store1) = [toISOString 1756803600000]
   \<and> cleanupExpiredSessions None (1756803600000 + 60 * 60 * 1000) store1 = Inr (0, store1)
   \<and> cleanupExpiredSessions None 1756857599000 store1 = Inr (0, store1)
   \<and> cleanupExpiredSessions None 1756857600000 store1 = Inr (1, store1\<lparr>sessions := []\<rparr>)"
proof -
  have a: "map s_expires_at (sessions store1) = [toISOString 1756803600000]"
    using expiry_login by (simp add: store1_def session1_def t_login_def)
  have b: "cleanupExpiredSessions None (1756803600000 + 60 * 60 * 1000) store1 = Inr (0, store1)"
    by (simp add: sweep_store1 now_hour_after_expiry)
  have c: "cleanupExpiredSessions None 1756857599000 store1 = Inr (0, store1)"
    by (simp add: sweep_store1 now_end_of_day)
  have d: "cleanupExpiredSessions None 1756857600000 store1 = Inr (1, store1\<lparr>sessions := []\<rparr>)"
    by (simp add: sweep_store1 now_next_day)
  from a b c d show ?thesis by blast
qed

section \<open>Revocation\<close>

lemma no_token_not_live:
  "\<forall>s \<in> set (sessions db). s_token s \<noteq> tok \<Longrightarrow>
     filter (session_live now tok) (session_join db) = []"
  by (auto simp: session_join_def session_live_def filter_empty_conv)

lemma validateSession_no_token:
  "\<forall>s \<in> set (sessions db). s_token s \<noteq> tok \<Longrightarrow> validateSession None now tok db = Inr None"
  by (simp add: validateSession_def no_token_not_live)

lemma filter_token_id:
  "\<forall>s \<in> set ss. s_token s \<noteq> tok \<Longrightarrow> filter (\<lambda>s. s_token s \<noteq> tok) ss = ss"
  by (induction ss) auto

text \<open>
  C4. With the storage working (\<open>err = None\<close>), \<open>deleteSession\<close> never rejects; after it
  \<open>validateSession\<close> of the same token finds nothing, at any clock value; a second
  \<open>deleteSession\<close> of the token succeeds again and changes nothing; when no session
  row has the token the first one changes nothing either. The other tables and the
  sessions of other tokens stay as they were.
\<close>

theorem revoke_then_validate:
  "\<exists>db'. deleteSession None tok db = Inr db'
      \<and> validateSession None now tok db' = Inr None
      \<and> deleteSession None tok db' = Inr db'
      \<and> users db' = users db \<and> events db' = events db
      \<and> filter (\<lambda>s. s_token s \<noteq> tok) (sessions db') = filter (\<lambda>s. s_token s \<noteq> tok) (sessions db)
      \<and> ((\<forall>s \<in> set (sessions db). s_token s \<noteq> tok) \<longrightarrow> db' = db)"
proof -
  define db' where "db' = db\<lparr>sessions := filter (\<lambda>s. s_token s \<noteq> tok) (sessions db)\<rparr>"
  have gone: "\<forall>s \<in> set (sessions db'). s_token s \<noteq> tok"
    by (simp add: db'_def)
  have 1: "deleteSession None tok db = Inr db'"
    by (simp add: deleteSession_def db'_def)
  have 2: "validateSession None now tok db' = Inr None"
    using gone by (rule validateSession_no_token)
  have 3: "deleteSession None tok db' = Inr db'"
    using gone by (simp add: deleteSession_def filter_token_id)
  have 4: "(\<forall>s \<in> set (sessions db). s_token s \<noteq> tok) \<longrightarrow> db' = db"
    by (simp add: db'_def filter_token_id)
  have 5: "users db' = users db \<and> events db' = events db"
    by (simp add: db'_def)
  have 6: "filter (\<lambda>s. s_token s \<noteq> tok) (sessions db') = filter (\<lambda>s. s_token s \<noteq> tok) (sessions db)"
    by (simp add: db'_def)
  from 1 2 3 4 5 6 show ?thesis by blast
qed

theorem revoke_then_validate_witness:
  "map s_token (sessions store1) = [token1]
   \<and> validateSession None t_login token1 store1 = Inr (Some row1)
   \<and> deleteSession None token1 store1 = Inr (store1\<lparr>sessions := []\<rparr>)
   \<and> validateSession None t_login token1 (store1\<lparr>sessions := []\<rparr>) = Inr None
   \<and> deleteSession None token1 (store1\<lparr>sessions := []\<rparr>) = Inr (store1\<lparr>sessions := []\<rparr>)
   \<and> deleteSession None ''00'' store1 = Inr store1"
proof -
  have del: "deleteSession None token1 store1 = Inr (store1\<lparr>sessions := []\<rparr>)"
    by (simp add: deleteSession_def store1_def session1_def)
  have other: "\<forall>s \<in> set (sessions store1). s_token s \<noteq> ''00''"
    by (simp add: store1_def session1_def token1_def)
  have a: "map s_token (sessions store1) = [token1]"
    by (simp add: store1_def session1_def)
  have b: "validateSession None t_login token1 store1 = Inr (Some row1)"
    by (simp add: validate_store1 now_login)
  from revoke_then_validate [of token1 store1 t_login] del
  have c: "validateSession None t_login token1 (store1\<lparr>sessions := []\<rparr>) = Inr None
      \<and> deleteSession None token1 (store1\<lparr>sessions := []\<rparr>) = Inr (store1\<lparr>sessions := []\<rparr>)"
    by auto
  from revoke_then_validate [of "''00''" store1 t_login] other
  have d: "deleteSession None ''00'' store1 = Inr store1"
    by auto
  from a b c d del show ?thesis by blast
qed

section \<open>Authorization gate\<close>

lemma gate_cases:
  "((\<exists>b. authenticateAdmin err now authHeader db = Inl (Response 401 b)) \<longleftrightarrow>
      (authHeader = None
       \<or> (\<exists>h. authHeader = Some h
              \<and> (\<not> startsWith h ''Bearer '' \<or> validateSession err now (drop 7 h) db = Inr None))))
   \<and> ((\<exists>b. authenticateAdmin err now authHeader db = Inl (Response 500 b)) \<longleftrightarrow>
      (\<exists>h e. authHeader = Some h \<and> startsWith h ''Bearer '' \<and> err = Some e))
   \<and> (\<forall>h e. authHeader = Some h \<and> startsWith h ''Bearer '' \<and> err = Some e \<longrightarrow>
         authenticateAdmin err now authHeader db =
           Inl (Response 500 (ErrorBody ''Authentication failed'')))
   \<and> (\<forall>h session. authHeader = Some h \<and> startsWith h ''Bearer ''
         \<and> validateSession err now (drop 7 h) db = Inr (Some session) \<longrightarrow>
         authenticateAdmin err now authHeader db =
           Inr \<lparr>ru_id = sr_user_id session, ru_username = sr_username session,
                ru_fullName = sr_full_name session, ru_role = sr_role session\<rparr>)
   \<and> ((\<exists>u. authenticateAdmin err now authHeader db = Inr u) \<longleftrightarrow>
      (\<exists>h session. authHeader = Some h \<and> startsWith h ''Bearer ''
         \<and> validateSession err now (drop 7 h) db = Inr (Some session)))"
proof (cases authHeader)
  case None
  then show ?thesis by (simp add: authenticateAdmin_def)
next
  case (Some h)
  have empty: "\<not> startsWith [] ''Bearer ''" by (simp add: startsWith_def)
  show ?thesis
  proof (cases "startsWith h ''Bearer ''")
    case False
    with Some empty show ?thesis by (auto simp add: authenticateAdmin_def)
  next
    case True
    with empty have ne: "h \<noteq> []" by auto
    show ?thesis
    proof (cases err)
      case (Some e)
      with \<open>authHeader = Some h\<close> True ne show ?thesis
        by (simp add: authenticateAdmin_def validateSession_def)
    next
      case None
      then obtain r where r: "validateSession err now (drop 7 h) db = Inr r"
        by (simp add: validateSession_def)
      with \<open>authHeader = Some h\<close> True ne None show ?thesis
        by (cases r) (simp_all add: authenticateAdmin_def)
    qed
  qed
qed

lemma gate_short_circuit:
  assumes "authenticateAdmin err_auth now authHeader db = Inl r"
  shows "post_api_events err_auth err now authHeader req db = (r, db)"
    and "put_api_events_id err_auth err now authHeader eventId req db = (r, db)"
    and "delete_api_events_id err_auth err now authHeader eventId db = (r, db)"
  using assms
  by (simp_all add: post_api_events_def put_api_events_id_def delete_api_events_id_def)

text \<open>
  C6. The middleware answers 401 exactly when the header is absent, does not start with
  \<^verbatim>\<open>Bearer \<close>, or \<open>validateSession\<close> of the rest of the header returns none; it answers
  500 exactly when the header has the shape and the storage fails during the lookup;
  otherwise it attaches id, username, fullName and role of the session row found and
  lets the request through. When it answers itself, the endpoints that create, update
  and delete events return that answer and leave the database as it was.
\<close>

theorem gate_outcomes:
  "((\<exists>b. authenticateAdmin err now authHeader db = Inl (Response 401 b)) \<longleftrightarrow>
      (authHeader = None
       \<or> (\<exists>h. authHeader = Some h
              \<and> (\<not> startsWith h ''Bearer '' \<or> validateSession err now (drop 7 h) db = Inr None))))
   \<and> ((\<exists>b. authenticateAdmin err now authHeader db = Inl (Response 500 b)) \<longleftrightarrow>
      (\<exists>h e. authHeader = Some h \<and> startsWith h ''Bearer '' \<and> err = Some e))
   \<and> (\<forall>h e. authHeader = Some h \<and> startsWith h ''Bearer '' \<and> err = Some e \<longrightarrow>
         authenticateAdmin err now authHeader db =
           Inl (Response 500 (ErrorBody ''Authentication failed'')))
   \<and> (\<forall>h session. authHeader = Some h \<and> startsWith h ''Bearer ''
         \<and> validateSession err now (drop 7 h) db = Inr (Some session) \<longrightarrow>
         authenticateAdmin err now authHeader db =
           Inr \<lparr>ru_id = sr_user_id session, ru_username = sr_username session,
                ru_fullName = sr_full_name session, ru_role = sr_role session\<rparr>)
   \<and> ((\<exists>u. authenticateAdmin err now authHeader db = Inr u) \<longleftrightarrow>
      (\<exists>h session. authHeader = Some h \<and> startsWith h ''Bearer ''
         \<and> validateSession err now (drop 7 h) db = Inr (Some session)))
   \<and> (\<forall>r. authenticateAdmin err now authHeader db = Inl r \<longrightarrow>
         (\<forall>e req eventId.
            post_api_events err e now authHeader req db = (r, db)
            \<and> put_api_events_id err e now authHeader eventId req db = (r, db)
            \<and> delete_api_events_id err e now authHeader eventId db = (r, db)))"
proof -
  note cases = gate_cases [of err now authHeader db]
  have short: "\<forall>r. authenticateAdmin err now authHeader db = Inl r \<longrightarrow>
         (\<forall>e req eventId.
            post_api_events err e now authHeader req db = (r, db)
            \<and> put_api_events_id err e now authHeader eventId req db = (r, db)
            \<and> delete_api_events_id err e now authHeader eventId db = (r, db))"
    by (simp add: gate_short_circuit)
  from cases short show ?thesis by (intro conjI) blast+
qed

theorem gate_outcomes_witness:
  "authenticateAdmin None t_login (Some (''Bearer '' @ token1)) store1 =
     Inr \<lparr>ru_id = 1, ru_username = ''alice'', ru_fullName = ''Alice A'', ru_role = ''admin''\<rparr>
   \<and> authenticateAdmin (Some (StorageFailure ''SQLITE_IOERR'')) t_login
        (Some (''Bearer '' @ token1)) store1 =
     Inl (Response 500 (ErrorBody ''Authentication failed''))
   \<and> (\<exists>b. authenticateAdmin None 1756857600000 (Some (''Bearer '' @ token1)) store1 =
          Inl (Response 401 b))
   \<and> (\<exists>b. authenticateAdmin None t_login (Some token1) store1 = Inl (Response 401 b))"
proof -
  have shape: "startsWith (''Bearer '' @ token1) ''Bearer ''"
    by (simp add: startsWith_def)
  have noshape: "\<not> startsWith token1 ''Bearer ''"
    by (simp add: startsWith_def token1_def)
  have live: "validateSession None t_login (drop 7 (''Bearer '' @ token1)) store1 = Inr (Some row1)"
    by (simp add: validate_store1 now_login)
  have dead: "validateSession None 1756857600000 (drop 7 (''Bearer '' @ token1)) store1 = Inr None"
    by (simp add: validate_store1 now_next_day)
  have a: "authenticateAdmin None t_login (Some (''Bearer '' @ token1)) store1 =
     Inr \<lparr>ru_id = 1, ru_username = ''alice'', ru_fullName = ''Alice A'', ru_role = ''admin''\<rparr>"
    using gate_outcomes [of None t_login "Some (''Bearer '' @ token1)" store1] shape live
    by (simp add: row1_def)
  have b: "authenticateAdmin (Some (StorageFailure ''SQLITE_IOERR'')) t_login
        (Some (''Bearer '' @ token1)) store1 =
     Inl (Response 500 (ErrorBody ''Authentication failed''))"
    using gate_outcomes [of "Some (StorageFailure ''SQLITE_IOERR'')" t_login
        "Some (''Bearer '' @ token1)" store1] shape
    by simp
  have c: "\<exists>b. authenticateAdmin None 1756857600000 (Some (''Bearer '' @ token1)) store1 =
          Inl (Response 401 b)"
    using gate_outcomes [of None 1756857600000 "Some (''Bearer '' @ token1)" store1] dead
    by simp
  have d: "\<exists>b. authenticateAdmin None t_login (Some token1) store1 = Inl (Response 401 b)"
    using gate_outcomes [of None t_login "Some token1" store1] noshape
    by simp
  from a b c d show ?thesis by blast
qed

section \<open>Who stamps the last login\<close>

lemma validateUser_Some:
  assumes "validateUser None compare now username password db = Inr (Some user, db')"
  shows "find (\<lambda>u. u_username u = username \<and> u_is_active u = 1) (users db) = Some user
     \<and> compare password (u_password_hash user)
     \<and> db' = stamp_last_login (u_id user) (CURRENT_TIMESTAMP now) db"
  using assms by (auto simp add: validateUser_def split: option.splits if_splits)

lemma validateUser_None:
  assumes "validateUser None compare now username password db = Inr (None, db')"
  shows "db' = db"
  using assms by (auto simp add: validateUser_def split: option.splits if_splits)

lemma login_users:
  assumes "username \<noteq> []" and "password \<noteq> []"
    and "validateUser err_user compare now username password db = Inr (r, db')"
  shows "users (snd (post_api_auth_login err_user err_session compare bytes now
                        username password db)) = users db'"
proof (cases r)
  case None
  with assms show ?thesis by (simp add: post_api_auth_login_def)
next
  case (Some user)
  with assms show ?thesis
    by (cases err_session)
       (simp_all add: post_api_auth_login_def createSession_def insert_session_def)
qed

text \<open>
  C7, as the claim states it, fails on any successful verification: \<open>validateUser\<close>
  itself writes the last login. In the sample store alice has never logged in;
  after \<open>validateUser\<close> with her password her row carries the clock value of the call.
\<close>

theorem verification_stamps_counterexample:
  "map u_last_login (users store0) = [None]
   \<and> validateUser None stub_compare t_login ''alice'' ''secret1'' store0 =
       Inr (Some alice, store0\<lparr>users := [alice\<lparr>u_last_login := Some ''2025-09-01 09:00:00''\<rparr>]\<rparr>)"
proof -
  have a: "map u_last_login (users store0) = [None]"
    by (simp add: store0_def alice_def)
  have b: "validateUser None stub_compare t_login ''alice'' ''secret1'' store0 =
       Inr (Some alice, store0\<lparr>users := [alice\<lparr>u_last_login := Some ''2025-09-01 09:00:00''\<rparr>]\<rparr>)"
    by (simp add: validateUser_def store0_def alice_def stub_compare_def stub_hash_def
        stamp_last_login_def now_login)
  from a b show ?thesis by blast
qed

text \<open>
  C7, amended. With the storage working, a successful \<open>validateUser\<close> returns an
  active identity of the store with that username whose hash matches, and itself sets
  the last login of the rows with that identity's id to the current time, changing
  nothing else; a failed one changes nothing. The login handler leaves the identities
  as \<open>validateUser\<close> left them. \<open>createUser\<close> appends one row with the current time
  as creation time and no last login.
\<close>

theorem verification_stamps_last_login:
  "(\<forall>user db'. validateUser None compare now username password db = Inr (Some user, db') \<longrightarrow>
       user \<in> set (users db) \<and> u_username user = username \<and> u_is_active user = 1
       \<and> compare password (u_password_hash user)
       \<and> users db' = map (\<lambda>u. if u_id u = u_id user
                                then u\<lparr>u_last_login := Some (CURRENT_TIMESTAMP now)\<rparr> else u)
                          (users db)
       \<and> events db' = events db \<and> sessions db' = sessions db)
   \<and> (\<forall>db'. validateUser None compare now username password db = Inr (None, db') \<longrightarrow> db' = db)
   \<and> (\<forall>r db'. username \<noteq> [] \<and> password \<noteq> []
         \<and> validateUser err_user compare now username password db = Inr (r, db') \<longrightarrow>
         users (snd (post_api_auth_login err_user err_session compare bytes now
                       username password db)) = users db')
   \<and> (\<forall>v db'. createUser None hash now req db = Inr (v, db') \<longrightarrow>
         (\<exists>row. users db' = users db @ [row] \<and> u_created_at row = CURRENT_TIMESTAMP now
                \<and> u_last_login row = None))"
proof (intro conjI allI impI)
  fix user db'
  assume h: "validateUser None compare now username password db = Inr (Some user, db')"
  note s = validateUser_Some [OF h]
  from s have f: "find (\<lambda>u. u_username u = username \<and> u_is_active u = 1) (users db) = Some user"
    by simp
  from f show "user \<in> set (users db)" by (auto simp add: find_Some_iff)
  from f show "u_username user = username" by (auto simp add: find_Some_iff)
  from f show "u_is_active user = 1" by (auto simp add: find_Some_iff)
  from s show "compare password (u_password_hash user)" by simp
  from s show "users db' = map (\<lambda>u. if u_id u = u_id user
                                then u\<lparr>u_last_login := Some (CURRENT_TIMESTAMP now)\<rparr> else u)
                          (users db)"
    by (simp add: stamp_last_login_def)
  from s show "events db' = events db" by (simp add: stamp_last_login_def)
  from s show "sessions db' = sessions db" by (simp add: stamp_last_login_def)
next
  fix db'
  assume "validateUser None compare now username password db = Inr (None, db')"
  then show "db' = db" by (rule validateUser_None)
next
  fix r db'
  assume "username \<noteq> [] \<and> password \<noteq> []
         \<and> validateUser err_user compare now username password db = Inr (r, db')"
  then show "users (snd (post_api_auth_login err_user err_session compare bytes now
                       username password db)) = users db'"
    by (simp add: login_users)
next
  fix v db'
  assume "createUser None hash now req db = Inr (v, db')"
  then show "\<exists>row. users db' = users db @ [row] \<and> u_created_at row = CURRENT_TIMESTAMP now
                \<and> u_last_login row = None"
    by (auto simp add: createUser_def insert_user_def new_user_def split: if_splits)
qed

theorem verification_stamps_last_login_witness:
  "validateUser None stub_compare t_login ''alice'' ''secret1'' store0 =
       Inr (Some alice, store0\<lparr>users := [alice\<lparr>u_last_login := Some ''2025-09-01 09:00:00''\<rparr>]\<rparr>)
   \<and> users (snd (post_api_auth_login None None stub_compare random32 t_login
                    ''alice'' ''secret1'' store0)) =
       [alice\<lparr>u_last_login := Some ''2025-09-01 09:00:00''\<rparr>]
   \<and> validateUser None stub_compare t_login ''alice'' ''wrong'' store0 = Inr (None, store0)"
proof -
  have a: "validateUser None stub_compare t_login ''alice'' ''secret1'' store0 =
       Inr (Some alice, store0\<lparr>users := [alice\<lparr>u_last_login := Some ''2025-09-01 09:00:00''\<rparr>]\<rparr>)"
    by (simp add: validateUser_def store0_def alice_def stub_compare_def stub_hash_def
        stamp_last_login_def now_login)
  have ne: "''alice'' \<noteq> [] \<and> ''secret1'' \<noteq> []" by simp
  note w = verification_stamps_last_login [of stub_compare t_login "''alice''" "''secret1''"
      store0 None None random32 stub_hash bob_reg]
  from w a ne
  have b: "users (snd (post_api_auth_login None None stub_compare random32 t_login
                    ''alice'' ''secret1'' store0)) =
       users (store0\<lparr>users := [alice\<lparr>u_last_login := Some ''2025-09-01 09:00:00''\<rparr>]\<rparr>)"
    by blast
  have c: "\<exists>db'. validateUser None stub_compare t_login ''alice'' ''wrong'' store0 = Inr (None, db')"
    by (simp add: validateUser_def store0_def alice_def stub_compare_def stub_hash_def)
  with verification_stamps_last_login [of stub_compare t_login "''alice''" "''wrong''"
      store0 None None random32 stub_hash bob_reg]
  have d: "validateUser None stub_compare t_login ''alice'' ''wrong'' store0 = Inr (None, store0)"
    by auto
  from a b d show ?thesis by simp
qed

section \<open>Registration\<close>

lemma fold_max_ge: "a \<le> fold max ids (a :: nat)"
proof (induction ids arbitrary: a)
  case Nil
  then show ?case by simp
next
  case (Cons i ids)
  have "a \<le> max i a" by simp
  also have "\<dots> \<le> fold max ids (max i a)" by (rule Cons.IH)
  finally show ?case by simp
qed

lemma fold_max_upper: "i \<in> set ids \<Longrightarrow> i \<le> fold max ids (a :: nat)"
proof (induction ids arbitrary: a)
  case Nil
  then show ?case by simp
next
  case (Cons j ids)
  show ?case
  proof (cases "i = j")
    case True
    have "i \<le> max j a" using True by simp
    also have "\<dots> \<le> fold max ids (max j a)" by (rule fold_max_ge)
    finally show ?thesis by simp
  next
    case False
    with Cons.prems have "i \<in> set ids" by simp
    then show ?thesis by (simp add: Cons.IH)
  qed
qed

lemma next_rowid_fresh: "next_rowid seq ids \<notin> set ids"
proof
  assume "next_rowid seq ids \<in> set ids"
  then have "next_rowid seq ids \<le> fold max ids 0" by (rule fold_max_upper)
  then show False by (simp add: next_rowid_def)
qed

lemma createUser_fresh:
  assumes "\<forall>u \<in> set (users db). u_username u \<noteq> ud_username req \<and> u_email u \<noteq> ud_email req"
  shows "createUser None hash now req db =
     Inr (\<lparr>uv_id = next_rowid (users_seq db) (map u_id (users db)),
           uv_username = ud_username req, uv_email = ud_email req,
           uv_fullName = ud_fullName req\<rparr>,
          insert_user
            (new_user (next_rowid (users_seq db) (map u_id (users db)))
               (ud_username req) (ud_email req) (hash (ud_password req)) (ud_fullName req)
               (CURRENT_TIMESTAMP now))
            db)"
  using assms by (auto simp add: createUser_def)

lemma register_fresh:
  assumes "ud_fullName req \<noteq> []" and "ud_email req \<noteq> []" and "ud_username req \<noteq> []"
    and "6 \<le> length (ud_password req)"
    and "\<forall>u \<in> set (users db). u_username u \<noteq> ud_username req \<and> u_email u \<noteq> ud_email req"
  shows "post_api_auth_register None hash now req db =
     (Response 201
        (RegisterBody \<lparr>uv_id = next_rowid (users_seq db) (map u_id (users db)),
           uv_username = ud_username req, uv_email = ud_email req,
           uv_fullName = ud_fullName req\<rparr>),
      insert_user
        (new_user (next_rowid (users_seq db) (map u_id (users db)))
           (ud_username req) (ud_email req) (hash (ud_password req)) (ud_fullName req)
           (CURRENT_TIMESTAMP now))
        db)"
proof -
  from assms(4) have "ud_password req \<noteq> []" by auto
  with assms(1,2,3,4) show ?thesis
    by (simp add: post_api_auth_register_def createUser_fresh [OF assms(5)])
qed

text \<open>
  C9. For a registration with the four fields present, a password of at least six
  characters, and a username and an email no identity of the store has, the storage
  working: the endpoint answers 201 and appends exactly one row to the identities,
  leaving the other tables as they were. The row has a new id, the username, email and
  full name of the request, role admin and active = 1, and its secret is what the hash
  function returned for the password; that differs from the password whenever the hash
  function (the library's, a parameter here) does not return its own argument. The view
  in the answer is made of id, username, email and full name only, and the answer is
  the same for any other password of at least six characters and any other hash
  function.
\<close>

theorem register_creates_identity:
  assumes "ud_fullName req \<noteq> []" and "ud_email req \<noteq> []" and "ud_username req \<noteq> []"
    and "6 \<le> length (ud_password req)"
    and "\<forall>u \<in> set (users db). u_username u \<noteq> ud_username req \<and> u_email u \<noteq> ud_email req"
    and "hash (ud_password req) \<noteq> ud_password req"
  shows "\<exists>row. post_api_auth_register None hash now req db =
            (Response 201
               (RegisterBody \<lparr>uv_id = u_id row, uv_username = ud_username req,
                               uv_email = ud_email req, uv_fullName = ud_fullName req\<rparr>),
             db\<lparr>users := users db @ [row], users_seq := u_id row\<rparr>)
     \<and> u_id row \<notin> set (map u_id (users db))
     \<and> u_username row = ud_username req \<and> u_email row = ud_email req
     \<and> u_full_name row = ud_fullName req
     \<and> u_password_hash row = hash (ud_password req)
     \<and> u_password_hash row \<noteq> ud_password req
     \<and> u_role row = ''admin'' \<and> u_is_active row = 1
     \<and> (\<forall>hash' p'. 6 \<le> length p' \<longrightarrow>
           fst (post_api_auth_register None hash' now (req\<lparr>ud_password := p'\<rparr>) db) =
           fst (post_api_auth_register None hash now req db))"
proof -
  define row where "row = new_user (next_rowid (users_seq db) (map u_id (users db)))
           (ud_username req) (ud_email req) (hash (ud_password req)) (ud_fullName req)
           (CURRENT_TIMESTAMP now)"
  have rid: "u_id row = next_rowid (users_seq db) (map u_id (users db))"
    by (simp add: row_def new_user_def)
  have 1: "post_api_auth_register None hash now req db =
            (Response 201
               (RegisterBody \<lparr>uv_id = u_id row, uv_username = ud_username req,
                               uv_email = ud_email req, uv_fullName = ud_fullName req\<rparr>),
             db\<lparr>users := users db @ [row], users_seq := u_id row\<rparr>)"
    by (simp add: register_fresh [OF assms(1,2,3,4,5)] rid insert_user_def row_def [symmetric])
  have 2: "u_id row \<notin> set (map u_id (users db))"
    by (simp only: rid next_rowid_fresh not_False_eq_True)
  have 3: "u_username row = ud_username req \<and> u_email row = ud_email req
     \<and> u_full_name row = ud_fullName req \<and> u_password_hash row = hash (ud_password req)
     \<and> u_role row = ''admin'' \<and> u_is_active row = 1"
    by (simp add: row_def new_user_def)
  with assms(6) have 4: "u_password_hash row \<noteq> ud_password req"
    by simp
  have 5: "fst (post_api_auth_register None hash' now (req\<lparr>ud_password := p'\<rparr>) db) =
           fst (post_api_auth_register None hash now req db)" if "6 \<le> length p'" for hash' p'
  proof -
    have "post_api_auth_register None hash' now (req\<lparr>ud_password := p'\<rparr>) db =
     (Response 201
        (RegisterBody \<lparr>uv_id = next_rowid (users_seq db) (map u_id (users db)),
           uv_username = ud_username (req\<lparr>ud_password := p'\<rparr>),
           uv_email = ud_email (req\<lparr>ud_password := p'\<rparr>),
           uv_fullName = ud_fullName (req\<lparr>ud_password := p'\<rparr>)\<rparr>),
      insert_user
        (new_user (next_rowid (users_seq db) (map u_id (users db)))
           (ud_username (req\<lparr>ud_password := p'\<rparr>)) (ud_email (req\<lparr>ud_password := p'\<rparr>))
           (hash' (ud_password (req\<lparr>ud_password := p'\<rparr>)))
           (ud_fullName (req\<lparr>ud_password := p'\<rparr>))
           (CURRENT_TIMESTAMP now))
        db)"
      using assms(1,2,3,5) that by (intro register_fresh) simp_all
    then show ?thesis
      by (simp add: register_fresh [OF assms(1,2,3,4,5)])
  qed
  from 1 2 3 4 5 show ?thesis by blast
qed

theorem register_creates_identity_witness:
  "map u_username (users store0) = [''alice''] \<and> map u_email (users store0) = [''a@x.com'']
   \<and> stub_hash (ud_password bob_reg) = ''$2b$10$22retnuh''
   \<and> post_api_auth_register None stub_hash t_login bob_reg store0 =
       (Response 201
          (RegisterBody \<lparr>uv_id = 2, uv_username = ''bob'', uv_email = ''b@x.com'',
                          uv_fullName = ''Bob B''\<rparr>),
        store0\<lparr>users := [alice,
                  \<lparr>u_id = 2, u_username = ''bob'', u_email = ''b@x.com'',
                   u_password_hash = ''$2b$10$22retnuh'', u_full_name = ''Bob B'',
                   u_role = ''admin'', u_created_at = ''2025-09-01 09:00:00'',
                   u_last_login = None, u_is_active = 1\<rparr>],
                users_seq := 2\<rparr>)"
proof -
  have a: "map u_username (users store0) = [''alice''] \<and> map u_email (users store0) = [''a@x.com'']"
    by (simp add: store0_def alice_def)
  have b: "stub_hash (ud_password bob_reg) = ''$2b$10$22retnuh''"
    by (simp add: stub_hash_def bob_reg_def)
  have h1: "ud_fullName bob_reg \<noteq> []" and h2: "ud_email bob_reg \<noteq> []"
    and h3: "ud_username bob_reg \<noteq> []" and h4: "6 \<le> length (ud_password bob_reg)"
    by (simp_all add: bob_reg_def)
  have h5: "\<forall>u \<in> set (users store0).
      u_username u \<noteq> ud_username bob_reg \<and> u_email u \<noteq> ud_email bob_reg"
    by (simp add: store0_def alice_def bob_reg_def)
  have h6: "stub_hash (ud_password bob_reg) \<noteq> ud_password bob_reg"
    by (simp add: stub_hash_def bob_reg_def)
  have c: "post_api_auth_register None stub_hash t_login bob_reg store0 =
       (Response 201
          (RegisterBody \<lparr>uv_id = 2, uv_username = ''bob'', uv_email = ''b@x.com'',
                          uv_fullName = ''Bob B''\<rparr>),
        store0\<lparr>users := [alice,
                  \<lparr>u_id = 2, u_username = ''bob'', u_email = ''b@x.com'',
                   u_password_hash = ''$2b$10$22retnuh'', u_full_name = ''Bob B'',
                   u_role = ''admin'', u_created_at = ''2025-09-01 09:00:00'',
                   u_last_login = None, u_is_active = 1\<rparr>],
                users_seq := 2\<rparr>)"
    using register_creates_identity [where hash = stub_hash and now = t_login, OF h1 h2 h3 h4 h5 h6]
    by (simp add: post_api_auth_register_def createUser_def bob_reg_def store0_def alice_def
        insert_user_def new_user_def next_rowid_def stub_hash_def now_login)
  from a b c show ?thesis by blast
qed

section \<open>Creating an event of an unknown type\<close>

lemma constraint_message_not_found:
  "error_message (NotNullConstraint c) \<noteq> ''Event not found''"
  "error_message (CheckConstraint c) \<noteq> ''Event not found''"
  by simp_all

lemma not_null_present:
  assumes "ed_title d = Some t" and "ed_description d = Some ds" and "ed_date d = Some da"
    and "ed_time d = Some ti" and "ed_type d = Some ty"
  shows "not_null d =
     Inr \<lparr>ev_title = t, ev_description = ds, ev_date = da, ev_time = ti, ev_type = ty\<rparr>"
  using assms by (simp add: not_null_def)

lemma not_null_type:
  "not_null d = Inr v \<Longrightarrow> ed_type d = Some (ev_type v)"
  by (auto simp add: not_null_def split: option.splits)

lemma not_null_missing:
  "ed_title d = None \<or> ed_description d = None \<or> ed_date d = None \<or> ed_time d = None
     \<or> ed_type d = None \<Longrightarrow> \<exists>c. not_null d = Inl (NotNullConstraint c)"
  by (auto simp add: not_null_def split: option.splits)

lemma not_null_error:
  "not_null d = Inl e \<Longrightarrow> \<exists>c. e = NotNullConstraint c"
  by (auto simp add: not_null_def split: option.splits)

text \<open>What a request with a null field or a type outside the three values meets: one
  of the two constraints.\<close>

lemma constraint_violation:
  assumes "ed_title d = None \<or> ed_description d = None \<or> ed_date d = None
      \<or> ed_time d = None
      \<or> ed_type d \<notin> {Some ''assignment'', Some ''webinar'', Some ''workshop''}"
  shows "(\<exists>c. not_null d = Inl (NotNullConstraint c))
      \<or> (\<exists>v. not_null d = Inr v \<and> \<not> type_check (ev_type v))"
proof (cases "not_null d")
  case (Inl e)
  then show ?thesis using not_null_error by blast
next
  case (Inr v)
  then have all: "ed_title d \<noteq> None \<and> ed_description d \<noteq> None \<and> ed_date d \<noteq> None
      \<and> ed_time d \<noteq> None"
    by (auto simp add: not_null_def split: option.splits)
  from Inr have "ed_type d = Some (ev_type v)" by (rule not_null_type)
  with assms all have "\<not> type_check (ev_type v)"
    by (auto simp add: type_check_def)
  with Inr show ?thesis by blast
qed

text \<open>
  C10. When the gate lets the request through and the type is none of assignment,
  webinar, workshop (or is missing), \<open>createEvent\<close> is rejected by a constraint of the
  table, by the CHECK constraint when the five fields are all given, and the endpoint
  answers 500 with the database as it was (no row inserted); the status is not 400.
\<close>

theorem create_unknown_type:
  assumes "authenticateAdmin err_auth now authHeader db = Inr user"
    and "ed_type req \<notin> {Some ''assignment'', Some ''webinar'', Some ''workshop''}"
  shows "(\<exists>c. createEvent None now req (ru_id user) db = Inl (NotNullConstraint c)
              \<or> createEvent None now req (ru_id user) db = Inl (CheckConstraint c))
     \<and> (ed_title req \<noteq> None \<and> ed_description req \<noteq> None \<and> ed_date req \<noteq> None
          \<and> ed_time req \<noteq> None \<and> ed_type req \<noteq> None \<longrightarrow>
        createEvent None now req (ru_id user) db = Inl (CheckConstraint type_check_text))
     \<and> post_api_events err_auth None now authHeader req db =
         (Response 500 (ErrorBody ''Failed to create event''), db)
     \<and> (\<forall>err. snd (post_api_events err_auth err now authHeader req db) = db
           \<and> status (fst (post_api_events err_auth err now authHeader req db)) = 500)"
proof -
  from assms(2) have viol: "(\<exists>c. not_null req = Inl (NotNullConstraint c))
      \<or> (\<exists>v. not_null req = Inr v \<and> \<not> type_check (ev_type v))"
    by (intro constraint_violation) simp
  then have 1: "\<exists>c. createEvent None now req (ru_id user) db = Inl (NotNullConstraint c)
              \<or> createEvent None now req (ru_id user) db = Inl (CheckConstraint c)"
    by (auto simp add: createEvent_def)
  have 2: "createEvent None now req (ru_id user) db = Inl (CheckConstraint type_check_text)"
    if "ed_title req \<noteq> None \<and> ed_description req \<noteq> None \<and> ed_date req \<noteq> None
          \<and> ed_time req \<noteq> None \<and> ed_type req \<noteq> None"
  proof -
    from that obtain t ds da ti ty where f: "ed_title req = Some t" "ed_description req = Some ds"
      "ed_date req = Some da" "ed_time req = Some ti" "ed_type req = Some ty"
      by auto
    with assms(2) have "\<not> type_check ty" by (simp add: type_check_def)
    then show ?thesis
      by (simp add: createEvent_def not_null_present [OF f])
  qed
  have 3: "\<exists>e. createEvent err now req (ru_id user) db = Inl e" for err
    using viol by (cases err) (auto simp add: createEvent_def)
  have 4: "post_api_events err_auth err now authHeader req db =
         (Response 500 (ErrorBody ''Failed to create event''), db)" for err
    using 3 [of err] assms(1) by (auto simp add: post_api_events_def)
  from 1 2 4 show ?thesis by simp
qed

theorem create_unknown_type_witness:
  "authenticateAdmin None t_login (Some (''Bearer '' @ token1)) store1 =
     Inr \<lparr>ru_id = 1, ru_username = ''alice'', ru_fullName = ''Alice A'', ru_role = ''admin''\<rparr>
   \<and> ed_type party = Some ''party''
   \<and> createEvent None t_login party 1 store1 = Inl (CheckConstraint type_check_text)
   \<and> post_api_events None None t_login (Some (''Bearer '' @ token1)) party store1 =
       (Response 500 (ErrorBody ''Failed to create event''), store1)"
proof -
  have auth: "authenticateAdmin None t_login (Some (''Bearer '' @ token1)) store1 =
     Inr \<lparr>ru_id = 1, ru_username = ''alice'', ru_fullName = ''Alice A'', ru_role = ''admin''\<rparr>"
    by (simp add: authenticateAdmin_def startsWith_def validate_store1 now_login row1_def)
  have ty: "ed_type party \<notin> {Some ''assignment'', Some ''webinar'', Some ''workshop''}"
    by (simp add: party_def)
  have all: "ed_title party \<noteq> None \<and> ed_description party \<noteq> None \<and> ed_date party \<noteq> None
          \<and> ed_time party \<noteq> None \<and> ed_type party \<noteq> None"
    by (simp add: party_def)
  have p: "ed_type party = Some ''party''" by (simp add: party_def)
  from create_unknown_type [OF auth ty] all p auth show ?thesis by simp
qed

section \<open>Updating an event\<close>

lemma update_absent:
  "\<forall>e \<in> set (events db). e_id e \<noteq> eventId \<Longrightarrow>
     updateEvent None now eventId req db = Inl EventNotFound"
  by (auto simp add: updateEvent_def filter_empty_conv)

lemma update_present:
  assumes "\<exists>e \<in> set (events db). e_id e = eventId"
    and "not_null req = Inr v" and "type_check (ev_type v)"
  shows "updateEvent None now eventId req db =
     Inr (\<lparr>ue_id = eventId, ue_title = ev_title v, ue_description = ev_description v,
           ue_date = ev_date v, ue_time = ev_time v, ue_type = ev_type v\<rparr>,
          db\<lparr>events := map (\<lambda>e. if e_id e = eventId
                                  then set_event v (CURRENT_TIMESTAMP now) e else e)
                           (events db)\<rparr>)"
proof -
  from assms(1) have "filter (\<lambda>e. e_id e = eventId) (events db) \<noteq> []"
    by (auto simp add: filter_empty_conv)
  with assms(2,3) show ?thesis by (simp add: updateEvent_def)
qed

lemma update_rejected:
  assumes "\<exists>e \<in> set (events db). e_id e = eventId"
    and "ed_title req = None \<or> ed_description req = None \<or> ed_date req = None
      \<or> ed_time req = None
      \<or> ed_type req \<notin> {Some ''assignment'', Some ''webinar'', Some ''workshop''}"
  shows "\<exists>c. updateEvent None now eventId req db = Inl (NotNullConstraint c)
            \<or> updateEvent None now eventId req db = Inl (CheckConstraint c)"
proof -
  from assms(1) have ne: "filter (\<lambda>e. e_id e = eventId) (events db) \<noteq> []"
    by (auto simp add: filter_empty_conv)
  from constraint_violation [OF assms(2)] ne show ?thesis
    by (auto simp add: updateEvent_def)
qed

text \<open>
  C5, as the claim states it, fails on an id that is present when the new type is outside
  the three values: the statement is rejected by the CHECK constraint and the row keeps
  its fields; the endpoint answers 500.
\<close>

theorem update_present_id_counterexample:
  "map e_id (events store1) = [1, 2, 3]
   \<and> updateEvent None t_login 1 party store1 = Inl (CheckConstraint type_check_text)
   \<and> put_api_events_id None None t_login (Some (''Bearer '' @ token1)) 1 party store1 =
       (Response 500 (ErrorBody ''Failed to update event''), store1)"
proof -
  have a: "map e_id (events store1) = [1, 2, 3]"
    by (simp add: store1_def quiz_def talk_def lab_def)
  have b: "updateEvent None t_login 1 party store1 = Inl (CheckConstraint type_check_text)"
    by (simp add: updateEvent_def store1_def quiz_def party_def type_check_def not_null_def)
  have auth: "authenticateAdmin None t_login (Some (''Bearer '' @ token1)) store1 =
     Inr \<lparr>ru_id = 1, ru_username = ''alice'', ru_fullName = ''Alice A'', ru_role = ''admin''\<rparr>"
    by (simp add: authenticateAdmin_def startsWith_def validate_store1 now_login row1_def)
  have c: "put_api_events_id None None t_login (Some (''Bearer '' @ token1)) 1 party store1 =
       (Response 500 (ErrorBody ''Failed to update event''), store1)"
    using auth b by (simp add: put_api_events_id_def)
  from a b c show ?thesis by blast
qed

text \<open>
  C5, amended. With the storage working: for an id no event row has, \<open>updateEvent\<close> is
  rejected with \<open>Event not found\<close> and the endpoint, past the gate, answers 404 with the
  database as it was. For an id some row has, the five fields all given and the new type
  among the three values, it resolves with the new fields and the endpoint answers 200;
  the rows with that id get the new title, description, date, time (the last two as
  the columns store them), type and the current time as update time, keeping id,
  creator and creation time; every other row, and the other tables, stay as they were.
  For an id some row has and a field missing or a type outside the three values it is
  rejected by the NOT NULL or the CHECK constraint and the endpoint answers 500 with
  the database as it was.
\<close>

theorem update_event_effect:
  "((\<forall>e \<in> set (events db). e_id e \<noteq> eventId) \<longrightarrow>
       updateEvent None now eventId req db = Inl EventNotFound
       \<and> (\<forall>user. authenticateAdmin err_auth now authHeader db = Inr user \<longrightarrow>
             put_api_events_id err_auth None now authHeader eventId req db =
               (Response 404 (ErrorBody ''Event not found''), db)))
   \<and> (\<forall>t ds da ti ty.
        (\<exists>e \<in> set (events db). e_id e = eventId)
        \<and> ed_title req = Some t \<and> ed_description req = Some ds \<and> ed_date req = Some da
        \<and> ed_time req = Some ti \<and> ed_type req = Some ty
        \<and> ty \<in> {''assignment'', ''webinar'', ''workshop''} \<longrightarrow>
       (\<exists>db'. updateEvent None now eventId req db =
                 Inr (\<lparr>ue_id = eventId, ue_title = t, ue_description = ds, ue_date = da,
                       ue_time = ti, ue_type = ty\<rparr>, db')
          \<and> (\<forall>user. authenticateAdmin err_auth now authHeader db = Inr user \<longrightarrow>
                put_api_events_id err_auth None now authHeader eventId req db =
                  (Response 200
                     (UpdatedBody \<lparr>ue_id = eventId, ue_title = t, ue_description = ds,
                                    ue_date = da, ue_time = ti, ue_type = ty\<rparr>), db'))
          \<and> users db' = users db \<and> sessions db' = sessions db
          \<and> length (events db') = length (events db)
          \<and> (\<forall>i < length (events db).
                events db' ! i =
                  (if e_id (events db ! i) = eventId
                   then (events db ! i)\<lparr>e_title := t, e_description := ds,
                           e_date := numeric_affinity da, e_time := numeric_affinity ti,
                           e_type := ty, e_updated_at := CURRENT_TIMESTAMP now\<rparr>
                   else events db ! i))))
   \<and> ((\<exists>e \<in> set (events db). e_id e = eventId)
        \<and> (ed_title req = None \<or> ed_description req = None \<or> ed_date req = None
            \<or> ed_time req = None
            \<or> ed_type req \<notin> {Some ''assignment'', Some ''webinar'', Some ''workshop''}) \<longrightarrow>
       (\<exists>c. updateEvent None now eventId req db = Inl (NotNullConstraint c)
             \<or> updateEvent None now eventId req db = Inl (CheckConstraint c))
       \<and> (\<forall>user. authenticateAdmin err_auth now authHeader db = Inr user \<longrightarrow>
             put_api_events_id err_auth None now authHeader eventId req db =
               (Response 500 (ErrorBody ''Failed to update event''), db)))"
proof (intro conjI impI allI)
  assume absent: "\<forall>e \<in> set (events db). e_id e \<noteq> eventId"
  then show nf: "updateEvent None now eventId req db = Inl EventNotFound"
    by (rule update_absent)
  fix user
  assume "authenticateAdmin err_auth now authHeader db = Inr user"
  then show "put_api_events_id err_auth None now authHeader eventId req db =
               (Response 404 (ErrorBody ''Event not found''), db)"
    by (simp add: put_api_events_id_def nf)
next
  fix t ds da ti ty
  assume h: "(\<exists>e \<in> set (events db). e_id e = eventId)
        \<and> ed_title req = Some t \<and> ed_description req = Some ds \<and> ed_date req = Some da
        \<and> ed_time req = Some ti \<and> ed_type req = Some ty
        \<and> ty \<in> {''assignment'', ''webinar'', ''workshop''}"
  define v where "v = \<lparr>ev_title = t, ev_description = ds, ev_date = da, ev_time = ti,
      ev_type = ty\<rparr>"
  from h have nn: "not_null req = Inr v"
    by (simp add: not_null_present v_def)
  from h have ty: "type_check (ev_type v)" by (simp add: type_check_def v_def)
  from h have ex: "\<exists>e \<in> set (events db). e_id e = eventId" by simp
  note up = update_present [OF ex nn ty, of now]
  show "\<exists>db'. updateEvent None now eventId req db =
                 Inr (\<lparr>ue_id = eventId, ue_title = t, ue_description = ds, ue_date = da,
                       ue_time = ti, ue_type = ty\<rparr>, db')
          \<and> (\<forall>user. authenticateAdmin err_auth now authHeader db = Inr user \<longrightarrow>
                put_api_events_id err_auth None now authHeader eventId req db =
                  (Response 200
                     (UpdatedBody \<lparr>ue_id = eventId, ue_title = t, ue_description = ds,
                                    ue_date = da, ue_time = ti, ue_type = ty\<rparr>), db'))
          \<and> users db' = users db \<and> sessions db' = sessions db
          \<and> length (events db') = length (events db)
          \<and> (\<forall>i < length (events db).
                events db' ! i =
                  (if e_id (events db ! i) = eventId
                   then (events db ! i)\<lparr>e_title := t, e_description := ds,
                           e_date := numeric_affinity da, e_time := numeric_affinity ti,
                           e_type := ty, e_updated_at := CURRENT_TIMESTAMP now\<rparr>
                   else events db ! i))"
    by (simp add: up put_api_events_id_def set_event_def v_def)
next
  assume h: "(\<exists>e \<in> set (events db). e_id e = eventId)
        \<and> (ed_title req = None \<or> ed_description req = None \<or> ed_date req = None
            \<or> ed_time req = None
            \<or> ed_type req \<notin> {Some ''assignment'', Some ''webinar'', Some ''workshop''})"
  then have ex: "\<exists>e \<in> set (events db). e_id e = eventId" by simp
  from h have bad: "ed_title req = None \<or> ed_description req = None \<or> ed_date req = None
            \<or> ed_time req = None
            \<or> ed_type req \<notin> {Some ''assignment'', Some ''webinar'', Some ''workshop''}"
    by simp
  show rej: "\<exists>c. updateEvent None now eventId req db = Inl (NotNullConstraint c)
             \<or> updateEvent None now eventId req db = Inl (CheckConstraint c)"
    using ex bad by (rule update_rejected)
  fix user
  assume auth: "authenticateAdmin err_auth now authHeader db = Inr user"
  from rej obtain c where "updateEvent None now eventId req db = Inl (NotNullConstraint c)
             \<or> updateEvent None now eventId req db = Inl (CheckConstraint c)"
    by blast
  then show "put_api_events_id err_auth None now authHeader eventId req db =
               (Response 500 (ErrorBody ''Failed to update event''), db)"
    using auth by (auto simp add: put_api_events_id_def)
qed

theorem update_event_effect_witness:
  "map e_id (events store1) = [1, 2, 3]
   \<and> updateEvent None t_login 9 retitled store1 = Inl EventNotFound
   \<and> put_api_events_id None None t_login (Some (''Bearer '' @ token1)) 9 retitled store1 =
       (Response 404 (ErrorBody ''Event not found''), store1)
   \<and> updateEvent None t_login 1 retitled store1 =
       Inr (\<lparr>ue_id = 1, ue_title = ''Quiz 1'', ue_description = ''Ch.1-2'',
             ue_date = ''2025-09-11'', ue_time = ''10:00'', ue_type = ''assignment''\<rparr>,
            store1\<lparr>events :=
              [quiz\<lparr>e_title := ''Quiz 1'', e_description := ''Ch.1-2'',
                    e_date := SqlText ''2025-09-11'', e_time := SqlText ''10:00'',
                    e_type := ''assignment'',
                    e_updated_at := ''2025-09-01 09:00:00''\<rparr>, talk, lab]\<rparr>)
   \<and> put_api_events_id None None t_login (Some (''Bearer '' @ token1)) 1 party store1 =
       (Response 500 (ErrorBody ''Failed to update event''), store1)
   \<and> updateEvent None t_login 1 untitled store1 = Inl (NotNullConstraint ''events.title'')
   \<and> put_api_events_id None None t_login (Some (''Bearer '' @ token1)) 1 untitled store1 =
       (Response 500 (ErrorBody ''Failed to update event''), store1)"
proof -
  have ids: "map e_id (events store1) = [1, 2, 3]"
    by (simp add: store1_def quiz_def talk_def lab_def)
  have absent: "\<forall>e \<in> set (events store1). e_id e \<noteq> 9"
    by (simp add: store1_def quiz_def talk_def lab_def)
  have present: "\<exists>e \<in> set (events store1). e_id e = 1"
    by (simp add: store1_def quiz_def talk_def lab_def)
  have auth: "authenticateAdmin None t_login (Some (''Bearer '' @ token1)) store1 =
     Inr \<lparr>ru_id = 1, ru_username = ''alice'', ru_fullName = ''Alice A'', ru_role = ''admin''\<rparr>"
    by (simp add: authenticateAdmin_def startsWith_def validate_store1 now_login row1_def)
  have bad: "ed_type party \<notin> {Some ''assignment'', Some ''webinar'', Some ''workshop''}"
    by (simp add: party_def)
  have missing: "ed_title untitled = None"
    by (simp add: untitled_def)
  note w = update_event_effect [of store1 _ t_login _ None "Some (''Bearer '' @ token1)"]
  from w [of 9 retitled] absent auth
  have a: "updateEvent None t_login 9 retitled store1 = Inl EventNotFound
     \<and> put_api_events_id None None t_login (Some (''Bearer '' @ token1)) 9 retitled store1 =
       (Response 404 (ErrorBody ''Event not found''), store1)"
    by blast
  from w [of 1 party] present bad auth
  have b: "put_api_events_id None None t_login (Some (''Bearer '' @ token1)) 1 party store1 =
       (Response 500 (ErrorBody ''Failed to update event''), store1)"
    by blast
  from w [of 1 untitled] present missing auth
  have c: "put_api_events_id None None t_login (Some (''Bearer '' @ token1)) 1 untitled store1 =
       (Response 500 (ErrorBody ''Failed to update event''), store1)"
    by blast
  have c': "updateEvent None t_login 1 untitled store1 = Inl (NotNullConstraint ''events.title'')"
    by (simp add: updateEvent_def store1_def quiz_def untitled_def not_null_def)
  have d1: "numeric_affinity ''2025-09-11'' = SqlText ''2025-09-11''"
    by (simp add: numeric_affinity_def literal_value_def unsigned_value_def trim_def
        unsigned_def int_digits_def frac_digits_def after_mantissa_def exponent_def
        is_space_def is_digit_def)
  have d2: "numeric_affinity ''10:00'' = SqlText ''10:00''"
    by (simp add: numeric_affinity_def literal_value_def unsigned_value_def trim_def
        unsigned_def int_digits_def frac_digits_def after_mantissa_def exponent_def
        is_space_def is_digit_def)
  have d: "updateEvent None t_login 1 retitled store1 =
       Inr (\<lparr>ue_id = 1, ue_title = ''Quiz 1'', ue_description = ''Ch.1-2'',
             ue_date = ''2025-09-11'', ue_time = ''10:00'', ue_type = ''assignment''\<rparr>,
            store1\<lparr>events :=
              [quiz\<lparr>e_title := ''Quiz 1'', e_description := ''Ch.1-2'',
                    e_date := SqlText ''2025-09-11'', e_time := SqlText ''10:00'',
                    e_type := ''assignment'',
                    e_updated_at := ''2025-09-01 09:00:00''\<rparr>, talk, lab]\<rparr>)"
    using d1 d2
    by (simp add: updateEvent_def store1_def quiz_def talk_def lab_def retitled_def
        type_check_def set_event_def now_login not_null_def)
  from ids a b c c' d show ?thesis by blast
qed

section \<open>Rejected logins\<close>

lemma validateUser_rejects:
  assumes "\<forall>u \<in> set (users db). u_username u = username \<and> u_is_active u = 1 \<longrightarrow>
             \<not> compare password (u_password_hash u)"
  shows "validateUser None compare now username password db = Inr (None, db)"
proof (cases "find (\<lambda>u. u_username u = username \<and> u_is_active u = 1) (users db)")
  case None
  then show ?thesis by (simp add: validateUser_def)
next
  case (Some user)
  then have "user \<in> set (users db)" and "u_username user = username \<and> u_is_active user = 1"
    by (auto simp add: find_Some_iff)
  with assms have "\<not> compare password (u_password_hash user)" by blast
  with Some show ?thesis by (simp add: validateUser_def)
qed

lemma login_rejects:
  assumes "username \<noteq> []" and "password \<noteq> []"
    and "\<forall>u \<in> set (users db). u_username u = username \<and> u_is_active u = 1 \<longrightarrow>
           \<not> compare password (u_password_hash u)"
  shows "post_api_auth_login None err_session compare bytes now username password db =
           (Response 401 (ErrorBody ''Invalid credentials''), db)"
  using assms by (simp add: post_api_auth_login_def validateUser_rejects)

lemma login_empty_field:
  assumes "username = [] \<or> password = []"
  shows "post_api_auth_login err_user err_session compare bytes now username password db =
           (Response 400 (ErrorBody ''Username and password are required''), db)"
  using assms by (auto simp add: post_api_auth_login_def)

text \<open>
  C3, as the claim states it (every rejected attempt gets the one \<open>InvalidCredentials\<close>
  outcome), fails on an attempt with an empty field: the handler answers 400 before it
  looks at the store. A wrong, empty password for the existing username alice gives
  400, an unknown username with a password gives 401. What the counterexample does not
  touch is the absence of a signal about the username: the 400 is the same for an
  unknown username, as the last equation shows and the amended statement proves in
  general.
\<close>

theorem login_rejection_counterexample:
  "map u_username (users store0) = [''alice'']
   \<and> stub_compare [] (u_password_hash alice) = False
   \<and> post_api_auth_login None None stub_compare random32 t_login ''alice'' [] store0 =
       (Response 400 (ErrorBody ''Username and password are required''), store0)
   \<and> post_api_auth_login None None stub_compare random32 t_login ''bob'' ''secret1'' store0 =
       (Response 401 (ErrorBody ''Invalid credentials''), store0)
   \<and> post_api_auth_login None None stub_compare random32 t_login ''bob'' [] store0 =
       (Response 400 (ErrorBody ''Username and password are required''), store0)"
proof -
  have a: "map u_username (users store0) = [''alice'']"
    by (simp add: store0_def alice_def)
  have b: "stub_compare [] (u_password_hash alice) = False"
    by (simp add: stub_compare_def stub_hash_def alice_def)
  have c: "post_api_auth_login None None stub_compare random32 t_login ''alice'' [] store0 =
       (Response 400 (ErrorBody ''Username and password are required''), store0)"
    by (simp add: post_api_auth_login_def)
  have d: "post_api_auth_login None None stub_compare random32 t_login ''bob'' ''secret1'' store0 =
       (Response 401 (ErrorBody ''Invalid credentials''), store0)"
    by (rule login_rejects) (simp_all add: store0_def alice_def)
  have e: "post_api_auth_login None None stub_compare random32 t_login ''bob'' [] store0 =
       (Response 400 (ErrorBody ''Username and password are required''), store0)"
    by (simp add: post_api_auth_login_def)
  from a b c d e show ?thesis by blast
qed

text \<open>
  C3, amended. Take two login attempts, each one rejected: no active identity of its
  store has the username, or the password does not match the hash of the one that has.
  With the storage working, an attempt with both fields non-empty gets 401
  \<open>Invalid credentials\<close>, so two such attempts get the same answer; an attempt with an
  empty username or password gets 400, whatever the store, the storage and the other
  field; each leaves its database as it was. And there is no signal about the
  username: two rejected attempts with the same password, whatever their usernames
  (both non-empty) and stores, get the same answer.
\<close>

theorem login_rejections_indistinguishable:
  assumes "\<forall>u \<in> set (users db). u_username u = username \<and> u_is_active u = 1 \<longrightarrow>
           \<not> compare password (u_password_hash u)"
    and "\<forall>u \<in> set (users db'). u_username u = username' \<and> u_is_active u = 1 \<longrightarrow>
           \<not> compare' password' (u_password_hash u)"
  shows "(username \<noteq> [] \<and> password \<noteq> [] \<longrightarrow>
            post_api_auth_login None err_session compare bytes now username password db =
              (Response 401 (ErrorBody ''Invalid credentials''), db))
     \<and> (username \<noteq> [] \<and> password \<noteq> [] \<and> username' \<noteq> [] \<and> password' \<noteq> [] \<longrightarrow>
            post_api_auth_login None err_session compare bytes now username password db =
              (Response 401 (ErrorBody ''Invalid credentials''), db)
          \<and> post_api_auth_login None err_session' compare' bytes' now' username' password' db' =
              (Response 401 (ErrorBody ''Invalid credentials''), db')
          \<and> fst (post_api_auth_login None err_session compare bytes now username password db) =
            fst (post_api_auth_login None err_session' compare' bytes' now' username' password'
                   db'))
     \<and> (\<forall>err_user. username = [] \<or> password = [] \<longrightarrow>
            post_api_auth_login err_user err_session compare bytes now username password db =
              (Response 400 (ErrorBody ''Username and password are required''), db))
     \<and> (username \<noteq> [] \<and> username' \<noteq> [] \<and> password' = password \<longrightarrow>
            fst (post_api_auth_login None err_session compare bytes now username password db) =
            fst (post_api_auth_login None err_session' compare' bytes' now' username' password'
                   db'))"
proof (intro conjI impI allI)
  assume "username \<noteq> [] \<and> password \<noteq> []"
  with assms(1)
  show "post_api_auth_login None err_session compare bytes now username password db =
              (Response 401 (ErrorBody ''Invalid credentials''), db)"
    by (simp add: login_rejects)
next
  assume h: "username \<noteq> [] \<and> password \<noteq> [] \<and> username' \<noteq> [] \<and> password' \<noteq> []"
  with assms(1)
  show 1: "post_api_auth_login None err_session compare bytes now username password db =
              (Response 401 (ErrorBody ''Invalid credentials''), db)"
    by (simp add: login_rejects)
  from h assms(2)
  show 2: "post_api_auth_login None err_session' compare' bytes' now' username' password' db' =
              (Response 401 (ErrorBody ''Invalid credentials''), db')"
    by (simp add: login_rejects)
  from 1 2
  show "fst (post_api_auth_login None err_session compare bytes now username password db) =
            fst (post_api_auth_login None err_session' compare' bytes' now' username' password'
                   db')"
    by simp
next
  fix err_user
  assume "username = [] \<or> password = []"
  then show "post_api_auth_login err_user err_session compare bytes now username password db =
              (Response 400 (ErrorBody ''Username and password are required''), db)"
    by (rule login_empty_field)
next
  assume h: "username \<noteq> [] \<and> username' \<noteq> [] \<and> password' = password"
  show "fst (post_api_auth_login None err_session compare bytes now username password db) =
            fst (post_api_auth_login None err_session' compare' bytes' now' username' password'
                   db')"
  proof (cases "password = []")
    case True
    with h show ?thesis by (simp add: login_empty_field)
  next
    case False
    with h assms show ?thesis by (simp add: login_rejects)
  qed
qed

theorem login_rejections_indistinguishable_witness:
  "post_api_auth_login None None stub_compare random32 t_login ''alice'' ''wrong'' store0 =
       (Response 401 (ErrorBody ''Invalid credentials''), store0)
   \<and> post_api_auth_login None None stub_compare random32 t_login ''bob'' ''secret1'' store0 =
       (Response 401 (ErrorBody ''Invalid credentials''), store0)
   \<and> post_api_auth_login None None stub_compare random32 t_login ''alice'' ''secret1'' store_off =
       (Response 401 (ErrorBody ''Invalid credentials''), store_off)
   \<and> map u_is_active (users store_off) = [0]
   \<and> post_api_auth_login None None stub_compare random32 t_login ''alice'' [] store0 =
       (Response 400 (ErrorBody ''Username and password are required''), store0)
   \<and> fst (post_api_auth_login None None stub_compare random32 t_login ''alice'' ''wrong'' store0) =
     fst (post_api_auth_login None None stub_compare random32 t_login ''bob'' ''wrong'' store0)"
proof -
  have wrong: "\<forall>u \<in> set (users store0). u_username u = ''alice'' \<and> u_is_active u = 1 \<longrightarrow>
           \<not> stub_compare ''wrong'' (u_password_hash u)"
    by (simp add: store0_def alice_def stub_compare_def stub_hash_def)
  have unknown: "\<forall>u \<in> set (users store0). u_username u = ''bob'' \<and> u_is_active u = 1 \<longrightarrow>
           \<not> stub_compare ''secret1'' (u_password_hash u)"
    by (simp add: store0_def alice_def)
  have unknown': "\<forall>u \<in> set (users store0). u_username u = ''bob'' \<and> u_is_active u = 1 \<longrightarrow>
           \<not> stub_compare ''wrong'' (u_password_hash u)"
    by (simp add: store0_def alice_def)
  have inactive: "\<forall>u \<in> set (users store_off). u_username u = ''alice'' \<and> u_is_active u = 1 \<longrightarrow>
           \<not> stub_compare ''secret1'' (u_password_hash u)"
    by (simp add: store_off_def store0_def alice_def)
  have empty: "\<forall>u \<in> set (users store0). u_username u = ''alice'' \<and> u_is_active u = 1 \<longrightarrow>
           \<not> stub_compare [] (u_password_hash u)"
    by (simp add: store0_def alice_def stub_compare_def stub_hash_def)
  have off: "map u_is_active (users store_off) = [0]"
    by (simp add: store_off_def)
  from login_rejections_indistinguishable [where compare = stub_compare
      and compare' = stub_compare and password = "''wrong''" and password' = "''secret1''"
      and err_session = None and err_session' = None and bytes = random32 and bytes' = random32
      and now = t_login and now' = t_login, OF wrong unknown]
  have a: "post_api_auth_login None None stub_compare random32 t_login ''alice'' ''wrong'' store0 =
       (Response 401 (ErrorBody ''Invalid credentials''), store0)
   \<and> post_api_auth_login None None stub_compare random32 t_login ''bob'' ''secret1'' store0 =
       (Response 401 (ErrorBody ''Invalid credentials''), store0)"
    by simp
  from login_rejections_indistinguishable [where compare = stub_compare
      and compare' = stub_compare and password = "''secret1''" and password' = "''secret1''"
      and err_session = None and err_session' = None and bytes = random32 and bytes' = random32
      and now = t_login and now' = t_login, OF inactive unknown]
  have b: "post_api_auth_login None None stub_compare random32 t_login ''alice'' ''secret1'' store_off =
       (Response 401 (ErrorBody ''Invalid credentials''), store_off)"
    by simp
  from login_rejections_indistinguishable [where compare = stub_compare
      and compare' = stub_compare and password = "[]" and password' = "''secret1''"
      and err_session = None and err_session' = None and bytes = random32 and bytes' = random32
      and now = t_login and now' = t_login, OF empty unknown]
  have c: "post_api_auth_login None None stub_compare random32 t_login ''alice'' [] store0 =
       (Response 400 (ErrorBody ''Username and password are required''), store0)"
    by simp
  from login_rejections_indistinguishable [where compare = stub_compare
      and compare' = stub_compare and password = "''wrong''" and password' = "''wrong''"
      and err_session = None and err_session' = None and bytes = random32 and bytes' = random32
      and now = t_login and now' = t_login, OF wrong unknown']
  have d: "fst (post_api_auth_login None None stub_compare random32 t_login ''alice'' ''wrong'' store0) =
     fst (post_api_auth_login None None stub_compare random32 t_login ''bob'' ''wrong'' store0)"
    by simp
  from a b c d off show ?thesis by blast
qed

section \<open>Listing the events\<close>

lemmas affinity_defs = numeric_affinity_def literal_value_def unsigned_value_def trim_def
  unsigned_def is_negative_def int_digits_def frac_digits_def after_mantissa_def exponent_def
  scale_def digits_value_def digit_value_def is_space_def is_digit_def

lemma affinity_samples:
  "numeric_affinity ''2025-09-01'' = SqlText ''2025-09-01''"
  "numeric_affinity ''09:00'' = SqlText ''09:00''"
  "numeric_affinity ''9'' = SqlNumber 9"
  "numeric_affinity ''10'' = SqlNumber 10"
  "numeric_affinity '' -1.5e1 '' = SqlNumber (- 15)"
  "numeric_affinity ''.5'' = SqlNumber (1 / 2)"
  "numeric_affinity ''0x10'' = SqlText ''0x10''"
  "numeric_affinity ''1e'' = SqlText ''1e''"
  "numeric_affinity [] = SqlText []"
  "numeric_affinity ''5.'' = SqlNumber 5"
  "numeric_affinity ''+.5e1'' = SqlNumber 5"
  "numeric_affinity ''1e+0009'' = SqlNumber 1000000000"
  "numeric_affinity ''1e-2'' = SqlNumber (1 / 100)"
  "numeric_affinity ''00012'' = SqlNumber 12"
  "numeric_affinity ''- 9'' = SqlText ''- 9''"
  "numeric_affinity ''9e+'' = SqlText ''9e+''"
  "numeric_affinity ''1..5'' = SqlText ''1..5''"
  "numeric_affinity ''.'' = SqlText ''.''"
  "numeric_affinity [CHR 0x0A, CHR ''9'', CHR 0x09] = SqlNumber 9"
  by (simp_all add: affinity_defs)

text \<open>The order on stored values, case by case.\<close>

lemma sql_value_order:
  "(SqlNumber a \<le> SqlNumber b) = (a \<le> b)"
  "(SqlNumber a \<le> SqlText t) = True"
  "(SqlText s \<le> SqlNumber b) = False"
  "(SqlText s \<le> SqlText t) = (s \<le> t)"
  "(SqlNumber a < SqlNumber b) = (a < b)"
  "(SqlNumber a < SqlText t) = True"
  "(SqlText s < SqlNumber b) = False"
  "(SqlText s < SqlText t) = (s < t)"
  by (auto simp add: less_eq_sql_value_def less_sql_value_def)

text \<open>
  The order on strings is the bytewise one: the first character that differs decides by
  its code, and a proper prefix comes first.
\<close>

lemma string_order_bytewise:
  "(x # xs < y # ys) = ((of_char x :: nat) < of_char y \<or> x = y \<and> xs < ys)"
  "([] < y # ys) = True"
  "(xs < ([] :: string)) = False"
  by (simp_all add: less_char_def)

lemma filter_key_unique:
  "distinct (map f xs) \<Longrightarrow>
     filter (\<lambda>x. f x = i) xs = (case find (\<lambda>x. f x = i) xs of None \<Rightarrow> [] | Some x \<Rightarrow> [x])"
proof (induction xs)
  case Nil
  then show ?case by simp
next
  case (Cons x xs)
  show ?case
  proof (cases "f x = i")
    case True
    with Cons.prems have "\<forall>y \<in> set xs. f y \<noteq> i" by (auto simp add: image_iff)
    then have "filter (\<lambda>x. f x = i) xs = []" by (simp add: filter_empty_conv)
    with True show ?thesis by simp
  next
    case False
    with Cons show ?thesis by simp
  qed
qed

lemma left_join_unique:
  assumes "distinct (map u_id us)"
  shows "left_join_users us e =
     [\<lparr>er_event = e,
       er_created_by_username =
         (case e_created_by e of
            None \<Rightarrow> None
          | Some i \<Rightarrow> map_option u_username (find (\<lambda>u. u_id u = i) us))\<rparr>]"
proof (cases "e_created_by e")
  case None
  then show ?thesis by (simp add: left_join_users_def)
next
  case (Some i)
  have "filter (\<lambda>u. e_created_by e = Some (u_id u)) us = filter (\<lambda>u. u_id u = i) us"
    using Some by (auto intro: filter_cong)
  also have "\<dots> = (case find (\<lambda>u. u_id u = i) us of None \<Rightarrow> [] | Some u \<Rightarrow> [u])"
    using assms by (rule filter_key_unique)
  finally show ?thesis
    using Some by (simp add: left_join_users_def split: option.splits)
qed

lemma order_key_le:
  "order_key r \<le> order_key r' \<Longrightarrow>
     e_date (er_event r) < e_date (er_event r')
     \<or> (e_date (er_event r) = e_date (er_event r') \<and> e_time (er_event r) \<le> e_time (er_event r'))"
  by (auto simp add: order_key_def)

text \<open>
  C8, as the claim states it, fails on a store that holds a date or a time that reads as
  a number: the table keeps it as a number and orders it as one. Two events of the
  same date are created, the first at time \<open>10\<close>, the second at time \<open>9\<close>; the listing
  returns the one at 9 first, while \<open>10\<close> comes before \<open>9\<close> as a string.
\<close>

theorem list_order_counterexample:
  "createEvent None t_login at_ten 1 store_none =
     Inr (\<lparr>ce_id = 4, ce_title = ''B'', ce_description = ''later'', ce_date = ''2025-09-01'',
           ce_time = ''10'', ce_type = ''webinar'', ce_created_by = 1,
           ce_created_at = ''2025-09-01T09:00:00.000Z''\<rparr>, store_ten)
   \<and> createEvent None t_login at_nine 1 store_ten =
     Inr (\<lparr>ce_id = 5, ce_title = ''A'', ce_description = ''earlier'', ce_date = ''2025-09-01'',
           ce_time = ''9'', ce_type = ''webinar'', ce_created_by = 1,
           ce_created_at = ''2025-09-01T09:00:00.000Z''\<rparr>, store_ten_nine)
   \<and> getAllEvents None store_ten_nine =
       Inr [\<lparr>er_event = event_nine, er_created_by_username = Some ''alice''\<rparr>,
            \<lparr>er_event = event_ten, er_created_by_username = Some ''alice''\<rparr>]
   \<and> (''10'' < ''9'') = True"
proof -
  have iso: "toISOString t_login = ''2025-09-01T09:00:00.000Z''"
    by (simp add: toISOString_def t_login_def text_defs civil_defs)
  have a: "createEvent None t_login at_ten 1 store_none =
     Inr (\<lparr>ce_id = 4, ce_title = ''B'', ce_description = ''later'', ce_date = ''2025-09-01'',
           ce_time = ''10'', ce_type = ''webinar'', ce_created_by = 1,
           ce_created_at = ''2025-09-01T09:00:00.000Z''\<rparr>, store_ten)"
    by (simp add: createEvent_def at_ten_def not_null_def type_check_def store_none_def
        store0_def store_ten_def event_ten_def next_rowid_def insert_event_def new_event_def
        iso now_login affinity_samples)
  have b: "createEvent None t_login at_nine 1 store_ten =
     Inr (\<lparr>ce_id = 5, ce_title = ''A'', ce_description = ''earlier'', ce_date = ''2025-09-01'',
           ce_time = ''9'', ce_type = ''webinar'', ce_created_by = 1,
           ce_created_at = ''2025-09-01T09:00:00.000Z''\<rparr>, store_ten_nine)"
    by (simp add: createEvent_def at_nine_def not_null_def type_check_def store_ten_def
        store0_def store_ten_nine_def event_ten_def event_nine_def next_rowid_def
        insert_event_def new_event_def iso now_login affinity_samples)
  have c: "getAllEvents None store_ten_nine =
       Inr [\<lparr>er_event = event_nine, er_created_by_username = Some ''alice''\<rparr>,
            \<lparr>er_event = event_ten, er_created_by_username = Some ''alice''\<rparr>]"
    by (simp add: getAllEvents_def store_ten_nine_def store0_def left_join_users_def alice_def
        order_key_def event_ten_def event_nine_def sql_value_order)
  have d: "(''10'' < ''9'') = True"
    by simp
  from a b c d show ?thesis by blast
qed

text \<open>
  C8, amended. In a store whose user ids are distinct (the primary key), \<open>getAllEvents\<close>
  with the storage working returns rows ordered by date, then by time, in the order of
  the stored values: numbers by value and before every text, text in the order on
  strings. So any two rows whose dates and times are stored as text, as dates
  \<^verbatim>\<open>YYYY-MM-DD\<close> and times \<^verbatim>\<open>HH:MM\<close> are, come in the lexicographic order of those
  strings. The events of the rows are the events of the table, each as often as it is
  there; and each row carries the username of the user whose id is the event's
  creator, or null when the creator is null or no user has that id.
\<close>

theorem list_all_events:
  assumes "distinct (map u_id (users db))"
  shows "\<exists>rows. getAllEvents None db = Inr rows
     \<and> sorted_wrt (\<lambda>r r'. e_date (er_event r) < e_date (er_event r')
                    \<or> (e_date (er_event r) = e_date (er_event r')
                        \<and> e_time (er_event r) \<le> e_time (er_event r'))) rows
     \<and> sorted_wrt (\<lambda>r r'. \<forall>d t d' t'.
                      e_date (er_event r) = SqlText d \<and> e_time (er_event r) = SqlText t
                      \<and> e_date (er_event r') = SqlText d' \<and> e_time (er_event r') = SqlText t'
                      \<longrightarrow> d < d' \<or> (d = d' \<and> t \<le> t')) rows
     \<and> mset (map er_event rows) = mset (events db)
     \<and> (\<forall>r \<in> set rows.
           er_created_by_username r =
             (case e_created_by (er_event r) of
                None \<Rightarrow> None
              | Some i \<Rightarrow> map_option u_username (find (\<lambda>u. u_id u = i) (users db))))"
proof -
  define g where "g = (\<lambda>e. \<lparr>er_event = e,
       er_created_by_username =
         (case e_created_by e of
            None \<Rightarrow> None
          | Some i \<Rightarrow> map_option u_username (find (\<lambda>u. u_id u = i) (users db)))\<rparr>)"
  define rows where "rows = sort_key order_key (map g (events db))"
  have join: "concat (map (left_join_users (users db)) (events db)) = map g (events db)"
    by (induction "events db") (simp_all add: left_join_unique [OF assms] g_def)
  have 1: "getAllEvents None db = Inr rows"
    by (simp add: getAllEvents_def join rows_def)
  have "sorted (map order_key rows)"
    by (simp add: rows_def)
  then have "sorted_wrt (\<lambda>r r'. order_key r \<le> order_key r') rows"
    by (simp add: sorted_map)
  then have 2: "sorted_wrt (\<lambda>r r'. e_date (er_event r) < e_date (er_event r')
                    \<or> (e_date (er_event r) = e_date (er_event r')
                        \<and> e_time (er_event r) \<le> e_time (er_event r'))) rows"
    by (rule sorted_wrt_mono_rel [rotated]) (rule order_key_le)
  then have lexico: "sorted_wrt (\<lambda>r r'. \<forall>d t d' t'.
                      e_date (er_event r) = SqlText d \<and> e_time (er_event r) = SqlText t
                      \<and> e_date (er_event r') = SqlText d' \<and> e_time (er_event r') = SqlText t'
                      \<longrightarrow> d < d' \<or> (d = d' \<and> t \<le> t')) rows"
    by (rule sorted_wrt_mono_rel [rotated]) (auto simp add: sql_value_order)
  have unrow: "map er_event (map g (events db)) = events db"
    by (induction "events db") (simp_all add: g_def comp_def)
  have perm: "mset rows = mset (map g (events db))"
    by (simp add: rows_def)
  have "mset (map er_event rows) = image_mset er_event (mset rows)"
    by (simp only: mset_map)
  also have "\<dots> = image_mset er_event (mset (map g (events db)))"
    by (simp only: perm)
  also have "\<dots> = mset (map er_event (map g (events db)))"
    by (simp only: mset_map)
  also have "\<dots> = mset (events db)"
    by (simp only: unrow)
  finally have 3: "mset (map er_event rows) = mset (events db)" .
  have 4: "\<forall>r \<in> set rows.
           er_created_by_username r =
             (case e_created_by (er_event r) of
                None \<Rightarrow> None
              | Some i \<Rightarrow> map_option u_username (find (\<lambda>u. u_id u = i) (users db)))"
    by (auto simp add: rows_def g_def)
  from 1 2 lexico 3 4 show ?thesis by blast
qed

theorem list_all_events_witness:
  "map u_id (users store0) = [1]
   \<and> events store0 = [quiz, talk, lab]
   \<and> getAllEvents None store0 =
       Inr [\<lparr>er_event = lab, er_created_by_username = None\<rparr>,
            \<lparr>er_event = talk, er_created_by_username = None\<rparr>,
            \<lparr>er_event = quiz, er_created_by_username = Some ''alice''\<rparr>]"
proof -
  have d: "distinct (map u_id (users store0))"
    by (simp add: store0_def)
  have a: "map u_id (users store0) = [1]"
    by (simp add: store0_def alice_def)
  have b: "events store0 = [quiz, talk, lab]"
    by (simp add: store0_def)
  have c: "getAllEvents None store0 =
       Inr [\<lparr>er_event = lab, er_created_by_username = None\<rparr>,
            \<lparr>er_event = talk, er_created_by_username = None\<rparr>,
            \<lparr>er_event = quiz, er_created_by_username = Some ''alice''\<rparr>]"
    using list_all_events [OF d]
    by (simp add: getAllEvents_def store0_def left_join_users_def alice_def order_key_def
        quiz_def talk_def lab_def sql_value_order)
  from a b c show ?thesis by blast
qed

end
